theory Spec2Isabelle
  imports Main "HOL-Library.AList"
begin

section \<open>Sync-context assembly: auth catalog, resource locator, connector factory\<close>

text \<open>
  A shallow embedding of four Python modules:
  \<^item> \<^verbatim>\<open>airweave/platform/auth/settings.py\<close> (class \<^verbatim>\<open>IntegrationSettings\<close>),
  \<^item> \<^verbatim>\<open>airweave/platform/locator.py\<close> (class \<^verbatim>\<open>ResourceLocator\<close>),
  \<^item> \<^verbatim>\<open>app/platform/sync/context.py\<close> (classes \<^verbatim>\<open>SyncContext\<close>, \<^verbatim>\<open>SyncContextFactory\<close>),
  \<^item> \<^verbatim>\<open>app/schemas/dag.py\<close> (the DAG schemas).

  A Python identifier with a leading underscore loses it (\<^verbatim>\<open>_parse_integration\<close> is
  \<open>parse_integration\<close>), since an Isabelle name cannot start with one. Exceptions are
  values of the type \<open>error\<close>, and a function that can raise returns \<open>error + 'a\<close>.
\<close>

subsection \<open>Exceptions\<close>

text \<open>
  One constructor per exception class that the modelled code raises or lets through:
  the built-in \<^verbatim>\<open>ValueError\<close>, \<^verbatim>\<open>TypeError\<close>, \<^verbatim>\<open>KeyError\<close>, \<^verbatim>\<open>AttributeError\<close> and
  \<^verbatim>\<open>ModuleNotFoundError\<close>, \<^verbatim>\<open>app.core.exceptions.NotFoundException\<close>, the
  \<^verbatim>\<open>ValidationError\<close> of the schema library (it lists the fields it rejects), and the
  failure of a token refresh. The argument is the message, the missing key or the
  rejected fields; for \<^verbatim>\<open>TypeError\<close> (unhashable type) it is the name of the type.
\<close>

datatype error =
    ValueError string
  | TypeError string
  | KeyError string
  | AttributeError string
  | ModuleNotFoundError string
  | NotFoundException string
  | ValidationError "string list"
  | CredentialRefreshError string

subsection \<open>The auth catalog (settings.py)\<close>

text \<open>
  Modelled from the spec: the enumeration \<^verbatim>\<open>AuthType\<close> is imported from
  \<^verbatim>\<open>airweave.platform.auth.schemas\<close>, which is not among the sources. Its members are
  the ones \<^verbatim>\<open>settings.py\<close> and \<^verbatim>\<open>context.py\<close> name; it is a string enumeration (the
  catalog's \<^verbatim>\<open>auth_type\<close> strings are looked up in a dictionary keyed by its members),
  and each member's value is taken to be its name, as the spec's scenarios write them
  (\<^verbatim>\<open>"oauth2_with_refresh"\<close>, \<^verbatim>\<open>"none"\<close>).
\<close>

datatype AuthType =
    oauth2
  | oauth2_with_refresh
  | oauth2_with_refresh_rotating
  | trello_auth
  | api_key
  | native_functionality
  | config_class
  | sigv4
  | none

fun AuthType_value :: "AuthType \<Rightarrow> string" where
  "AuthType_value oauth2 = ''oauth2''"
| "AuthType_value oauth2_with_refresh = ''oauth2_with_refresh''"
| "AuthType_value oauth2_with_refresh_rotating = ''oauth2_with_refresh_rotating''"
| "AuthType_value trello_auth = ''trello_auth''"
| "AuthType_value api_key = ''api_key''"
| "AuthType_value native_functionality = ''native_functionality''"
| "AuthType_value config_class = ''config_class''"
| "AuthType_value sigv4 = ''sigv4''"
| "AuthType_value none = ''none''"

text \<open>The settings classes that \<^verbatim>\<open>settings.py\<close> imports and maps auth types to.\<close>

datatype SettingsClass =
    OAuth2Settings
  | TrelloAuthSettings
  | APIKeyAuthSettings
  | OAuth2WithRefreshSettings
  | OAuth2WithRefreshRotatingSettings
  | NativeFunctionalityAuthSettings
  | ConfigClassAuthSettings
  | SigV4Settings

text \<open>
  The values \<^verbatim>\<open>yaml.safe_load\<close> produces (the type \<^verbatim>\<open>Any\<close> of the entries' fields): a
  string; another scalar (an integer, a float, a boolean, \<^verbatim>\<open>None\<close>, a date), which is
  hashable, equals no string, and is given here by the text that \<^verbatim>\<open>str\<close> returns for
  it; a list; a mapping. Lists and mappings are unhashable.
\<close>

datatype pyval =
    PStr string
  | PScalar string
  | PList "pyval list"
  | PDict "(pyval \<times> pyval) list"

text \<open>
  An entry of the catalog document is a dictionary from field names to values. A parsed
  entry is an instance of a settings class: the class and the fields its constructor
  kept.
\<close>

type_synonym config = "string \<rightharpoonup> pyval"

record BaseAuthSettings =
  settings_class :: SettingsClass
  settings_fields :: config

text \<open>
  The constructors of the settings classes are not among the sources, so the
  call \<^verbatim>\<open>model(**config)\<close> is a parameter \<open>model_init\<close> of the model: given the class
  and the keyword arguments it returns the instance's fields or raises.
\<close>

type_synonym model_init = "SettingsClass \<Rightarrow> config \<Rightarrow> error + config"

text \<open>
  The dictionary literal \<^verbatim>\<open>mapping\<close> of \<^verbatim>\<open>_parse_integration\<close>, in the order written;
  \<^verbatim>\<open>AuthType.none\<close> is mapped to \<^verbatim>\<open>None\<close>.
\<close>

definition mapping :: "(AuthType \<times> SettingsClass option) list" where
  "mapping =
    [(oauth2, Some OAuth2Settings),
     (trello_auth, Some TrelloAuthSettings),
     (api_key, Some APIKeyAuthSettings),
     (oauth2_with_refresh, Some OAuth2WithRefreshSettings),
     (oauth2_with_refresh_rotating, Some OAuth2WithRefreshRotatingSettings),
     (native_functionality, Some NativeFunctionalityAuthSettings),
     (config_class, Some ConfigClassAuthSettings),
     (sigv4, Some SigV4Settings),
     (none, None)]"

text \<open>
  \<^verbatim>\<open>mapping.get(auth_type)\<close>. The lookup hashes its key first, so a list or a mapping
  raises \<^verbatim>\<open>TypeError\<close>. A member of a string enumeration equals (and hashes as) its
  value, so a string finds the member whose value it is; any other scalar equals no
  member; a key that is not found gives \<^verbatim>\<open>None\<close>.
\<close>

definition mapping_get :: "pyval \<Rightarrow> error + SettingsClass option" where
  "mapping_get auth_type =
     (case auth_type of
        PStr s \<Rightarrow>
          Inr (case find (\<lambda>kv. AuthType_value (fst kv) = s) mapping of
                 None \<Rightarrow> None
               | Some kv \<Rightarrow> snd kv)
      | PScalar t \<Rightarrow> Inr None
      | PList xs \<Rightarrow> Inl (TypeError ''list'')
      | PDict kvs \<Rightarrow> Inl (TypeError ''dict''))"

text \<open>
  The text an f-string puts for a scalar value. It is only asked for after
  \<^verbatim>\<open>mapping.get\<close> has returned, that is for a hashable value; for a list or a mapping
  it is left empty here.
\<close>

fun format_value :: "pyval \<Rightarrow> string" where
  "format_value (PStr s) = s"
| "format_value (PScalar t) = t"
| "format_value (PList xs) = []"
| "format_value (PDict kvs) = []"

text \<open>
  \<^verbatim>\<open>_parse_integration(self, name, config)\<close>. The test \<^verbatim>\<open>if model:\<close> is false for
  \<^verbatim>\<open>None\<close> (a class is always true), and then \<^verbatim>\<open>ValueError\<close> is raised with the
  message \<^verbatim>\<open>f"Unsupported auth_type for integration {name}: {auth_type}"\<close>.
\<close>

definition parse_integration :: "model_init \<Rightarrow> string \<Rightarrow> config \<Rightarrow> error + BaseAuthSettings" where
  "parse_integration model_init name config =
     (let auth_type = (case config ''auth_type'' of None \<Rightarrow> PStr '''' | Some v \<Rightarrow> v)
      in case mapping_get auth_type of
           Inl e \<Rightarrow> Inl e
         | Inr model \<Rightarrow>
             (let config' = config(''integration_short_name'' \<mapsto> PStr name)
              in case model of
                   Some m \<Rightarrow>
                     (case model_init m config' of
                        Inl e \<Rightarrow> Inl e
                      | Inr kept \<Rightarrow> Inr \<lparr>settings_class = m, settings_fields = kept\<rparr>)
                 | None \<Rightarrow>
                     Inl (ValueError (''Unsupported auth_type for integration '' @ name @ '': '' @
                            format_value auth_type))))"

text \<open>
  The catalog document: the entries under the top-level key \<^verbatim>\<open>integrations\<close>, in the
  order of the text, so a short name may occur more than once. \<^verbatim>\<open>yaml.safe_load\<close>
  builds a dictionary from them by assigning each entry in turn: a key that occurs
  again keeps its place and takes the later value, and nothing is reported.
\<close>

type_synonym document = "(string \<times> config) list"

definition yaml_safe_load :: "document \<Rightarrow> (string \<times> config) list" where
  "yaml_safe_load doc = fold (\<lambda>kv d. AList.update (fst kv) (snd kv) d) doc []"

text \<open>
  The attribute \<^verbatim>\<open>self._settings\<close>, a dictionary from short names to settings; two
  dictionaries are equal when they hold the same values under the same keys.
\<close>

type_synonym catalog = "string \<rightharpoonup> BaseAuthSettings"

text \<open>
  The loop \<^verbatim>\<open>for name, config in data.items(): self._settings[name] = ...\<close> of
  \<^verbatim>\<open>load_settings\<close>: the first entry that fails to parse ends it with its exception.
\<close>

fun load_items :: "model_init \<Rightarrow> (string \<times> config) list \<Rightarrow> catalog \<Rightarrow> error + catalog" where
  "load_items model_init [] st = Inr st"
| "load_items model_init (kv # rest) st =
     (case parse_integration model_init (fst kv) (snd kv) of
        Inl e \<Rightarrow> Inl e
      | Inr s \<Rightarrow> load_items model_init rest (st(fst kv \<mapsto> s)))"

definition load_settings :: "model_init \<Rightarrow> document \<Rightarrow> catalog \<Rightarrow> error + catalog" where
  "load_settings model_init doc st = load_items model_init (yaml_safe_load doc) st"

text \<open>\<^verbatim>\<open>__init__\<close>: an empty dictionary, then \<^verbatim>\<open>load_settings\<close>.\<close>

definition IntegrationSettings :: "model_init \<Rightarrow> document \<Rightarrow> error + catalog" where
  "IntegrationSettings model_init doc = load_settings model_init doc Map.empty"

text \<open>
  \<^verbatim>\<open>get_by_short_name\<close>: \<^verbatim>\<open>self._settings.get(short_name)\<close>, and \<^verbatim>\<open>KeyError\<close> when
  there is none (an instance of a settings class is always true).
\<close>

definition get_by_short_name :: "catalog \<Rightarrow> string \<Rightarrow> error + BaseAuthSettings" where
  "get_by_short_name st short_name =
     (case st short_name of
        None \<Rightarrow> Inl (KeyError (''Integration settings not found for '' @ short_name))
      | Some s \<Rightarrow> Inr s)"

text \<open>
  The module's last line builds the process-wide catalog, and its users look an
  integration up in it: loading followed by one lookup.
\<close>

definition load_and_get :: "model_init \<Rightarrow> document \<Rightarrow> string \<Rightarrow> error + BaseAuthSettings" where
  "load_and_get model_init doc short_name =
     (case IntegrationSettings model_init doc of
        Inl e \<Rightarrow> Inl e
      | Inr st \<Rightarrow> get_by_short_name st short_name)"

text \<open>
  The tag of a strategy: the auth type whose settings class it is an instance of
  (the dictionary \<open>mapping\<close> read from right to left).
\<close>

fun strategy_tag :: "SettingsClass \<Rightarrow> AuthType" where
  "strategy_tag OAuth2Settings = oauth2"
| "strategy_tag TrelloAuthSettings = trello_auth"
| "strategy_tag APIKeyAuthSettings = api_key"
| "strategy_tag OAuth2WithRefreshSettings = oauth2_with_refresh"
| "strategy_tag OAuth2WithRefreshRotatingSettings = oauth2_with_refresh_rotating"
| "strategy_tag NativeFunctionalityAuthSettings = native_functionality"
| "strategy_tag ConfigClassAuthSettings = config_class"
| "strategy_tag SigV4Settings = sigv4"

subsection \<open>The resource locator (locator.py)\<close>

text \<open>
  \<^verbatim>\<open>importlib.import_module\<close> and \<^verbatim>\<open>getattr\<close> read the interpreter's modules, a
  parameter of the model: a module name gives the module's attributes, an attribute
  name gives an object. The objects the connector factory uses are connector classes,
  credential schemas (Modelled from the spec: a schema is its name and the fields it
  requires; the package \<^verbatim>\<open>configs\<close> is not among the sources) and transformer
  functions. For \<^verbatim>\<open>AttributeError\<close> the argument is the attribute's name, for
  \<^verbatim>\<open>ModuleNotFoundError\<close> the module's.
\<close>

datatype pyobj =
    SourceClass string
  | ConfigClass string "string list"
  | Function string

type_synonym pymodule = "string \<rightharpoonup> pyobj"

type_synonym modules = "string \<rightharpoonup> pymodule"

definition import_module :: "modules \<Rightarrow> string \<Rightarrow> error + pymodule" where
  "import_module mods name =
     (case mods name of None \<Rightarrow> Inl (ModuleNotFoundError name) | Some m \<Rightarrow> Inr m)"

definition getattr :: "pymodule \<Rightarrow> string \<Rightarrow> error + pyobj" where
  "getattr m name = (case m name of None \<Rightarrow> Inl (AttributeError name) | Some ob \<Rightarrow> Inr ob)"

definition PLATFORM_PATH :: string where
  "PLATFORM_PATH = ''airweave.platform''"

text \<open>
  The fields of \<^verbatim>\<open>schemas.Source\<close> and \<^verbatim>\<open>schemas.Transformer\<close> that the code reads (the
  package \<^verbatim>\<open>schemas\<close> has only its DAG module among the sources).
\<close>

record Source =
  short_name :: string
  class_name :: string
  auth_type :: AuthType
  auth_config_class :: "string option"

text \<open>The field \<^verbatim>\<open>module_name\<close> is \<open>transformer_module_name\<close> here (the short name is reserved).\<close>

record Transformer =
  transformer_module_name :: string
  method_name :: string

definition get_source :: "modules \<Rightarrow> Source \<Rightarrow> error + pyobj" where
  "get_source mods source =
     (case import_module mods (PLATFORM_PATH @ ''.sources.'' @ short_name source) of
        Inl e \<Rightarrow> Inl e
      | Inr m \<Rightarrow> getattr m (class_name source))"

text \<open>
  \<^verbatim>\<open>get_auth_config(auth_config_class, auth_type=None)\<close>: the \<^verbatim>\<open>match\<close> statement
  compares \<open>auth_type\<close> with \<^verbatim>\<open>AuthType.sigv4\<close>, then with \<^verbatim>\<open>AuthType.config_class\<close>, and
  has a default case; \<^verbatim>\<open>None\<close> equals neither member.
\<close>

definition get_auth_config :: "modules \<Rightarrow> string \<Rightarrow> string option \<Rightarrow> error + pyobj" where
  "get_auth_config mods auth_config_class_name auth_type_arg =
     (if auth_type_arg = Some (AuthType_value sigv4) then
        (case import_module mods (PLATFORM_PATH @ ''.configs.sigv4'') of
           Inl e \<Rightarrow> Inl e
         | Inr m \<Rightarrow> getattr m auth_config_class_name)
      else if auth_type_arg = Some (AuthType_value config_class) then
        (case import_module mods (PLATFORM_PATH @ ''.configs.auth'') of
           Inl e \<Rightarrow> Inl e
         | Inr m \<Rightarrow> getattr m auth_config_class_name)
      else
        (case import_module mods (PLATFORM_PATH @ ''.configs.auth'') of
           Inl e \<Rightarrow> Inl e
         | Inr m \<Rightarrow> getattr m auth_config_class_name))"

definition get_transformer :: "modules \<Rightarrow> Transformer \<Rightarrow> error + pyobj" where
  "get_transformer mods transformer =
     (case import_module mods (transformer_module_name transformer) of
        Inl e \<Rightarrow> Inl e
      | Inr m \<Rightarrow> getattr m (method_name transformer))"

subsection \<open>The DAG schemas (dag.py)\<close>

text \<open>
  \<^verbatim>\<open>DagNode\<close>, \<^verbatim>\<open>DagEdge\<close> and \<^verbatim>\<open>SyncDagDefinition\<close> with the fields of their base
  classes. The classes declare field types and no validator: every value of these
  record types is an instance. A UUID is a number.
\<close>

type_synonym UUID = nat

record DagNode =
  node_type :: string
  node_name :: string
  node_config :: "config option"
  connection_id :: "UUID option"
  entity_definition_id :: "UUID option"
  node_id :: UUID
  node_dag_id :: UUID
  node_organization_id :: UUID
  node_created_by_email :: string
  node_modified_by_email :: string

record DagEdge =
  from_node_id :: UUID
  to_node_id :: UUID
  edge_id :: UUID
  edge_dag_id :: UUID
  edge_organization_id :: UUID
  edge_created_by_email :: string
  edge_modified_by_email :: string

record SyncDagDefinition =
  dag_name :: string
  description :: "string option"
  dag_sync_id :: UUID
  dag_id :: UUID
  organization_id :: UUID
  created_by_email :: string
  modified_by_email :: string
  nodes :: "DagNode list"
  edges :: "DagEdge list"


subsection \<open>The connector factory and the assembler (context.py)\<close>

text \<open>
  The fields of the schemas that \<^verbatim>\<open>context.py\<close> reads. A user and a white label are
  opaque. The field \<^verbatim>\<open>id\<close> of a sync, a sync job and a connection is \<open>sync_id\<close>,
  \<open>job_id\<close> and \<open>conn_id\<close>; the field \<^verbatim>\<open>short_name\<close> of a connection is
  \<open>connection_short_name\<close>.
\<close>

type_synonym User = string

type_synonym WhiteLabel = string

record Sync =
  sync_id :: UUID
  source_connection_id :: UUID
  destination_connection_id :: "UUID option"
  embedding_model_connection_id :: "UUID option"

record SyncJob =
  job_id :: UUID

record Connection =
  conn_id :: UUID
  connection_short_name :: string
  integration_credential_id :: "UUID option"

record IntegrationCredential =
  encrypted_credentials :: string

record OAuth2TokenResponse =
  access_token :: string
  refresh_token :: "string option"

text \<open>
  The state the factory works on: the tables behind the \<^verbatim>\<open>crud\<close> layer (a connection
  and a credential are looked up for a user), and the log of the requests sent to the
  token-refresh endpoints (the integration and the refresh token of each request).
\<close>

text \<open>The named fields that decrypting a stored credential gives.\<close>

type_synonym credential_fields = "string \<rightharpoonup> string"

record world =
  connection_tbl :: "UUID \<Rightarrow> User \<Rightarrow> Connection option"
  source_tbl :: "string \<rightharpoonup> Source"
  credential_tbl :: "UUID \<Rightarrow> User \<Rightarrow> IntegrationCredential option"
  transformer_tbl :: "Transformer list"
  token_requests :: "(string \<times> string) list"

text \<open>
  What a connector is constructed with: a string (an access token) or an instance of a
  credential schema (the schema's name and the validated fields). An instance of a
  source, of an embedding model or of a destination is the name of its class and the
  arguments it was constructed with: the base classes have many implementations (the
  locator resolves them by name), and the instances of two of them differ. The progress
  sink and the router record the argument of their constructors.
\<close>

datatype pyarg = PyStr string | PyModel string credential_fields

datatype BaseSource = SourceInstance string "pyarg list"

datatype BaseEmbeddingModel = EmbeddingModelInstance string

datatype BaseDestination = DestinationInstance string UUID BaseEmbeddingModel

datatype SyncProgress = SyncProgress UUID

datatype SyncDAGRouter = SyncDAGRouter SyncDagDefinition

text \<open>
  The collaborators that do not change: the interpreter's modules, \<^verbatim>\<open>credentials.decrypt\<close>
  (a function from the stored text to the named fields) and its inverse direction, the
  token-refresh endpoint of each integration (given the integration and a refresh
  token), the process-wide catalog \<^verbatim>\<open>integration_settings\<close>, whether the credential
  store accepts a write, and the constructor of the router, \<^verbatim>\<open>SyncDAGRouter(dag)\<close> (the
  module \<^verbatim>\<open>sync.router\<close> is not among the sources; it returns a router or raises).
\<close>

record env =
  env_modules :: modules
  decrypt :: "string \<Rightarrow> credential_fields"
  encrypt :: "credential_fields \<Rightarrow> string"
  token_endpoint :: "string \<Rightarrow> string \<Rightarrow> error + OAuth2TokenResponse"
  integration_settings :: catalog
  store_writable :: bool
  router_init :: "SyncDagDefinition \<Rightarrow> error + SyncDAGRouter"

text \<open>
  The two constructions \<^verbatim>\<open>context.py\<close> writes out: \<^verbatim>\<open>LocalText2Vec()\<close> and
  \<^verbatim>\<open>WeaviateDestination.create(sync_id, embedding_model)\<close>.
\<close>

definition LocalText2Vec :: BaseEmbeddingModel where
  "LocalText2Vec = EmbeddingModelInstance ''LocalText2Vec''"

definition WeaviateDestination_create :: "UUID \<Rightarrow> BaseEmbeddingModel \<Rightarrow> BaseDestination" where
  "WeaviateDestination_create sid em = DestinationInstance ''WeaviateDestination'' sid em"

record SyncContext =
  source :: BaseSource
  destination :: BaseDestination
  embedding_model :: BaseEmbeddingModel
  transformers :: "string \<rightharpoonup> pyobj"
  sync :: Sync
  sync_job :: SyncJob
  dag :: SyncDagDefinition
  progress :: SyncProgress
  router :: SyncDAGRouter
  white_label :: "WhiteLabel option"

text \<open>
  \<^verbatim>\<open>source_class.create(*args)\<close> and \<^verbatim>\<open>auth_config.model_validate(payload)\<close>: an object
  of another kind has no such attribute. Validation rejects a payload that lacks a
  required field, listing every missing field.
\<close>

definition source_create :: "pyobj \<Rightarrow> pyarg list \<Rightarrow> error + BaseSource" where
  "source_create source_class args =
     (case source_class of
        SourceClass n \<Rightarrow> Inr (SourceInstance n args)
      | ConfigClass n req \<Rightarrow> Inl (AttributeError ''create'')
      | Function n \<Rightarrow> Inl (AttributeError ''create''))"

definition model_validate :: "pyobj \<Rightarrow> credential_fields \<Rightarrow> error + pyarg" where
  "model_validate auth_config payload =
     (case auth_config of
        ConfigClass n req \<Rightarrow>
          (let missing = filter (\<lambda>f. payload f = None) req
           in if missing = [] then Inr (PyModel n payload) else Inl (ValidationError missing))
      | SourceClass n \<Rightarrow> Inl (AttributeError ''model_validate'')
      | Function n \<Rightarrow> Inl (AttributeError ''model_validate''))"

text \<open>
  Modelled from the spec: \<^verbatim>\<open>oauth2_service.refresh_access_token\<close> (the package
  \<^verbatim>\<open>auth.services\<close> is not among the sources), after the rows \<^verbatim>\<open>oauth2_refresh\<close> and
  \<^verbatim>\<open>oauth2_refresh_rotating\<close> of the Credential Resolver's table and its failure
  semantics. The strategy is the catalog's for the integration. The connection must
  have a credential reference; the endpoint is called with the stored refresh token; a
  failure of the endpoint is \<^verbatim>\<open>CredentialRefreshError\<close>. The plain strategy stores
  nothing and so reuses the same refresh token afterwards; the rotating one stores the
  newly issued refresh token before it returns, and a failed write is fatal. The spec's
  \<^verbatim>\<open>NotFoundError\<close> is \<^verbatim>\<open>NotFoundException\<close>.
\<close>

definition refresh_access_token ::
  "env \<Rightarrow> world \<Rightarrow> string \<Rightarrow> User \<Rightarrow> UUID \<Rightarrow> (error + OAuth2TokenResponse) \<times> world" where
  "refresh_access_token ev w integration_short_name current_user cid =
     (case get_by_short_name (integration_settings ev) integration_short_name of
        Inl e \<Rightarrow> (Inl e, w)
      | Inr strategy \<Rightarrow>
     (case connection_tbl w cid current_user of
        None \<Rightarrow> (Inl (NotFoundException ''connection''), w)
      | Some connection \<Rightarrow>
     (case integration_credential_id connection of
        None \<Rightarrow> (Inl (NotFoundException ''credential''), w)
      | Some credential_id \<Rightarrow>
     (case credential_tbl w credential_id current_user of
        None \<Rightarrow> (Inl (NotFoundException ''credential''), w)
      | Some credential \<Rightarrow>
     (let stored = decrypt ev (encrypted_credentials credential) in
      case stored ''refresh_token'' of
        None \<Rightarrow> (Inl (ValidationError [''refresh_token'']), w)
      | Some token \<Rightarrow>
     (let w1 = w\<lparr>token_requests := token_requests w @ [(integration_short_name, token)]\<rparr> in
      case token_endpoint ev integration_short_name token of
        Inl e \<Rightarrow> (Inl (CredentialRefreshError integration_short_name), w1)
      | Inr response \<Rightarrow>
          if settings_class strategy = OAuth2WithRefreshRotatingSettings then
            (case refresh_token response of
               None \<Rightarrow> (Inl (CredentialRefreshError integration_short_name), w1)
             | Some issued \<Rightarrow>
                 if store_writable ev then
                   (Inr response,
                    w1\<lparr>credential_tbl := (credential_tbl w1)
                          (credential_id := (credential_tbl w1 credential_id)
                             (current_user \<mapsto>
                                \<lparr>encrypted_credentials =
                                   encrypt ev (stored(''refresh_token'' \<mapsto> issued))\<rparr>))\<rparr>)
                 else (Inl (CredentialRefreshError integration_short_name), w1))
          else (Inr response, w1)))))))"

text \<open>
  \<^verbatim>\<open>_get_integration_credential\<close>. Its two callers have checked that the connection
  has a credential reference; without one the lookup finds nothing.
\<close>

definition get_integration_credential ::
  "world \<Rightarrow> Connection \<Rightarrow> User \<Rightarrow> error + IntegrationCredential" where
  "get_integration_credential w source_connection current_user =
     (case integration_credential_id source_connection of
        None \<Rightarrow> Inl (NotFoundException ''Source integration credential not found'')
      | Some credential_id \<Rightarrow>
          (case credential_tbl w credential_id current_user of
             None \<Rightarrow> Inl (NotFoundException ''Source integration credential not found'')
           | Some credential \<Rightarrow> Inr credential))"

text \<open>\<^verbatim>\<open>_create_oauth2_with_refresh_source\<close>: the only function that changes the state.\<close>

definition create_oauth2_with_refresh_source ::
  "env \<Rightarrow> world \<Rightarrow> Source \<Rightarrow> pyobj \<Rightarrow> User \<Rightarrow> Connection \<Rightarrow> (error + BaseSource) \<times> world" where
  "create_oauth2_with_refresh_source ev w source_model source_class current_user source_connection =
     (case refresh_access_token ev w (short_name source_model) current_user
             (conn_id source_connection) of
        (Inl e, w') \<Rightarrow> (Inl e, w')
      | (Inr oauth2_response, w') \<Rightarrow>
          (source_create source_class [PyStr (access_token oauth2_response)], w'))"

text \<open>
  \<^verbatim>\<open>_create_oauth2_source\<close>: the subscript \<^verbatim>\<open>decrypted_credential["access_token"]\<close>
  raises \<^verbatim>\<open>KeyError\<close> on a payload without the key.
\<close>

definition create_oauth2_source ::
  "env \<Rightarrow> world \<Rightarrow> pyobj \<Rightarrow> User \<Rightarrow> Connection \<Rightarrow> error + BaseSource" where
  "create_oauth2_source ev w source_class current_user source_connection =
     (if integration_credential_id source_connection = None then
        Inl (NotFoundException ''Source connection has no integration credential'')
      else
        (case get_integration_credential w source_connection current_user of
           Inl e \<Rightarrow> Inl e
         | Inr credential \<Rightarrow>
             (let decrypted_credential = decrypt ev (encrypted_credentials credential) in
              case decrypted_credential ''access_token'' of
                None \<Rightarrow> Inl (KeyError ''access_token'')
              | Some token \<Rightarrow> source_create source_class [PyStr token])))"

text \<open>
  \<^verbatim>\<open>_create_other_auth_source\<close>. The test \<^verbatim>\<open>not source_model.auth_config_class\<close> holds
  for \<^verbatim>\<open>None\<close> and for the empty string. The auth type in the message is written by its
  value. \<^verbatim>\<open>get_auth_config\<close> is called with the class name alone.
\<close>

definition create_other_auth_source ::
  "env \<Rightarrow> world \<Rightarrow> Source \<Rightarrow> pyobj \<Rightarrow> User \<Rightarrow> Connection \<Rightarrow> error + BaseSource" where
  "create_other_auth_source ev w source_model source_class current_user source_connection =
     (if integration_credential_id source_connection = None then
        Inl (NotFoundException ''Source connection has no integration credential'')
      else
        (case get_integration_credential w source_connection current_user of
           Inl e \<Rightarrow> Inl e
         | Inr credential \<Rightarrow>
             (let decrypted_credential = decrypt ev (encrypted_credentials credential) in
              case auth_config_class source_model of
                None \<Rightarrow>
                  Inl (ValueError (''Auth config class required for auth type '' @
                         AuthType_value (auth_type source_model)))
              | Some cls \<Rightarrow>
                  if cls = [] then
                    Inl (ValueError (''Auth config class required for auth type '' @
                           AuthType_value (auth_type source_model)))
                  else
                    (case get_auth_config (env_modules ev) cls None of
                       Inl e \<Rightarrow> Inl e
                     | Inr auth_config \<Rightarrow>
                         (case model_validate auth_config decrypted_credential of
                            Inl e \<Rightarrow> Inl e
                          | Inr source_credentials \<Rightarrow>
                              source_create source_class [source_credentials])))))"

text \<open>\<^verbatim>\<open>_create_source_instance\<close>: the dispatch on the source's auth type.\<close>

definition create_source_instance ::
  "env \<Rightarrow> world \<Rightarrow> Sync \<Rightarrow> User \<Rightarrow> (error + BaseSource) \<times> world" where
  "create_source_instance ev w sy current_user =
     (case connection_tbl w (source_connection_id sy) current_user of
        None \<Rightarrow> (Inl (NotFoundException ''Source connection not found''), w)
      | Some source_connection \<Rightarrow>
     (case source_tbl w (connection_short_name source_connection) of
        None \<Rightarrow> (Inl (NotFoundException ''Source not found''), w)
      | Some source_model \<Rightarrow>
     (case get_source (env_modules ev) source_model of
        Inl e \<Rightarrow> (Inl e, w)
      | Inr source_class \<Rightarrow>
          if auth_type source_model = none then (source_create source_class [], w)
          else if auth_type source_model \<in> set [oauth2_with_refresh, oauth2_with_refresh_rotating] then
            create_oauth2_with_refresh_source ev w source_model source_class current_user
              source_connection
          else if auth_type source_model = oauth2 then
            (create_oauth2_source ev w source_class current_user source_connection, w)
          else
            (create_other_auth_source ev w source_model source_class current_user
               source_connection, w))))"

text \<open>
  \<^verbatim>\<open>_get_embedding_model\<close> and \<^verbatim>\<open>_create_destination_instance\<close>, each with its two
  branches as written.
\<close>

definition get_embedding_model :: "Sync \<Rightarrow> BaseEmbeddingModel" where
  "get_embedding_model sy =
     (if embedding_model_connection_id sy = None then LocalText2Vec else LocalText2Vec)"

definition create_destination_instance :: "Sync \<Rightarrow> BaseEmbeddingModel \<Rightarrow> BaseDestination" where
  "create_destination_instance sy em =
     (if destination_connection_id sy = None then WeaviateDestination_create (sync_id sy) em
      else WeaviateDestination_create (sync_id sy) em)"

text \<open>\<^verbatim>\<open>_get_transformer_callables\<close>: one resolution per registered transformer.\<close>

fun transformer_loop :: "modules \<Rightarrow> Transformer list \<Rightarrow> (string \<rightharpoonup> pyobj) \<Rightarrow> error + (string \<rightharpoonup> pyobj)" where
  "transformer_loop mods [] acc = Inr acc"
| "transformer_loop mods (t # ts) acc =
     (case get_transformer mods t of
        Inl e \<Rightarrow> Inl e
      | Inr f \<Rightarrow> transformer_loop mods ts (acc(method_name t \<mapsto> f)))"

definition get_transformer_callables :: "env \<Rightarrow> world \<Rightarrow> Sync \<Rightarrow> error + (string \<rightharpoonup> pyobj)" where
  "get_transformer_callables ev w sy = transformer_loop (env_modules ev) (transformer_tbl w) Map.empty"

text \<open>
  \<^verbatim>\<open>create\<close> is a class method: \<open>cls\<close> is the class it is called on,
  \<^verbatim>\<open>SyncContextFactory\<close> or a subclass of it. Of \<open>cls\<close> the model keeps the names of its
  attributes and the coroutine that \<^verbatim>\<open>cls._get_entity_map\<close> is when \<open>cls\<close> has that
  attribute: given the session and the sync it returns or raises, and the caller does
  not use its value. The methods that the body of \<^verbatim>\<open>SyncContextFactory\<close> defines are the
  functions above. The lookup of a name that \<open>cls\<close> does not have raises
  \<^verbatim>\<open>AttributeError\<close>.
\<close>

record pyclass =
  attributes :: "string list"
  get_entity_map :: "world \<Rightarrow> Sync \<Rightarrow> (error + unit) \<times> world"

definition class_getattr :: "pyclass \<Rightarrow> string \<Rightarrow> error + string" where
  "class_getattr cls name =
     (if name \<in> set (attributes cls) then Inr name else Inl (AttributeError name))"

text \<open>
  The class as written: the names its body defines (it has no base class of its own).
  \<^verbatim>\<open>_get_entity_map\<close> is not among them; the body defines
  \<^verbatim>\<open>_get_entity_definition_map\<close>, which nothing calls.
\<close>

definition SyncContextFactory_methods :: "string list" where
  "SyncContextFactory_methods =
     [''create'', ''_create_source_instance'', ''_create_oauth2_with_refresh_source'',
      ''_create_oauth2_source'', ''_create_other_auth_source'', ''_get_integration_credential'',
      ''_get_embedding_model'', ''_create_destination_instance'', ''_get_transformer_callables'',
      ''_get_entity_definition_map'']"

definition SyncContextFactory :: pyclass where
  "SyncContextFactory =
     \<lparr>attributes = SyncContextFactory_methods,
      get_entity_map = (\<lambda>w sy. (Inl (AttributeError ''_get_entity_map''), w))\<rparr>"

text \<open>
  \<^verbatim>\<open>create\<close>: the steps in the order written. After the transformers it evaluates
  \<^verbatim>\<open>cls._get_entity_map(db, sync)\<close>; the value is bound to a name that the rest of the body
  never reads. Then come the progress sink, the router (whose constructor, not among the
  sources, is the parameter \<open>router_init\<close> and may raise) and the context. The DAG is
  passed to the router's constructor and stored in the context; no statement of
  \<^verbatim>\<open>create\<close> reads its nodes or edges.
\<close>

definition create ::
  "pyclass \<Rightarrow> env \<Rightarrow> world \<Rightarrow> Sync \<Rightarrow> SyncJob \<Rightarrow> SyncDagDefinition \<Rightarrow> User \<Rightarrow> WhiteLabel option \<Rightarrow>
     (error + SyncContext) \<times> world" where
  "create cls ev w sy job d current_user wl =
     (case create_source_instance ev w sy current_user of
        (Inl e, w') \<Rightarrow> (Inl e, w')
      | (Inr src, w') \<Rightarrow>
     (let em = get_embedding_model sy;
          dest = create_destination_instance sy em
      in case get_transformer_callables ev w' sy of
        Inl e \<Rightarrow> (Inl e, w')
      | Inr trs \<Rightarrow>
     (case class_getattr cls ''_get_entity_map'' of
        Inl e \<Rightarrow> (Inl e, w')
      | Inr attr \<Rightarrow>
     (case get_entity_map cls w' sy of
        (Inl e, w'') \<Rightarrow> (Inl e, w'')
      | (Inr entity_map, w'') \<Rightarrow>
     (let prog = SyncProgress (job_id job)
      in case router_init ev d of
        Inl e \<Rightarrow> (Inl e, w'')
      | Inr rt \<Rightarrow>
          (Inr \<lparr>source = src, destination = dest, embedding_model = em, transformers = trs,
                sync = sy, sync_job = job, dag = d, progress = prog, router = rt,
                white_label = wl\<rparr>, w''))))))"

section \<open>Fixtures\<close>

text \<open>
  Concrete inputs for the examples below. The settings constructor \<open>keep_all\<close> accepts
  every keyword argument and keeps it; \<open>need_client_id\<close> rejects the arguments of an
  \<^verbatim>\<open>OAuth2Settings\<close> that lack \<^verbatim>\<open>client_id\<close>.
\<close>

definition keep_all :: model_init where
  "keep_all c cfg = Inr cfg"

definition need_client_id :: model_init where
  "need_client_id c cfg =
     (if c = OAuth2Settings \<and> cfg ''client_id'' = None then Inl (ValidationError [''client_id''])
      else Inr cfg)"

definition doc_local_files :: document where
  "doc_local_files = [(''local_files'', [''auth_type'' \<mapsto> PStr ''none''])]"

definition doc_duplicate :: document where
  "doc_duplicate =
     [(''slack'', [''auth_type'' \<mapsto> PStr ''oauth2'']),
      (''slack'', [''auth_type'' \<mapsto> PStr ''api_key''])]"

definition doc_unknown :: document where
  "doc_unknown =
     [(''gmail'', [''auth_type'' \<mapsto> PStr ''oauth2'']),
      (''acme'', [''auth_type'' \<mapsto> PStr ''kerberos''])]"

definition doc_list_tag :: document where
  "doc_list_tag = [(''acme'', [''auth_type'' \<mapsto> PList [PStr ''oauth2'', PStr ''api_key'']])]"

definition doc_shadowed :: document where
  "doc_shadowed =
     [(''acme'', [''auth_type'' \<mapsto> PStr ''kerberos'']),
      (''acme'', [''auth_type'' \<mapsto> PStr ''api_key''])]"

definition doc_hubspot :: document where
  "doc_hubspot =
     [(''hubspot'', [''auth_type'' \<mapsto> PStr ''oauth2_with_refresh'']),
      (''stripe'', [''auth_type'' \<mapsto> PStr ''api_key''])]"

text \<open>
  A small installation: five integrations, their connector classes and credential
  schemas, eight connections of the user \<^verbatim>\<open>alice\<close>, and one registered transformer.
  The module \<^verbatim>\<open>configs.sigv4\<close> holds a schema under the same name as \<^verbatim>\<open>configs.auth\<close>
  does, with other fields.
\<close>

definition demo_modules :: modules where
  "demo_modules =
     [''airweave.platform.sources.gmail'' \<mapsto> [''GmailSource'' \<mapsto> SourceClass ''GmailSource''],
      ''airweave.platform.sources.hubspot'' \<mapsto> [''HubspotSource'' \<mapsto> SourceClass ''HubspotSource''],
      ''airweave.platform.sources.local_files'' \<mapsto> [''LocalFilesSource'' \<mapsto> SourceClass ''LocalFilesSource''],
      ''airweave.platform.sources.stripe'' \<mapsto> [''StripeSource'' \<mapsto> SourceClass ''StripeSource''],
      ''airweave.platform.sources.s3'' \<mapsto> [''S3Source'' \<mapsto> SourceClass ''S3Source''],
      ''airweave.platform.configs.auth'' \<mapsto>
         [''StripeAuthConfig'' \<mapsto> ConfigClass ''StripeAuthConfig'' [''api_key''],
          ''S3AuthConfig'' \<mapsto> ConfigClass ''S3AuthConfig'' [''access_key'', ''secret_key'']],
      ''airweave.platform.configs.sigv4'' \<mapsto>
         [''S3AuthConfig'' \<mapsto> ConfigClass ''S3SigV4Config'' [''region'']],
      ''airweave.platform.transformers.chunker'' \<mapsto> [''chunk'' \<mapsto> Function ''chunk'']]"

definition demo_decrypt :: "string \<Rightarrow> credential_fields" where
  "demo_decrypt s =
     (if s = ''enc-gmail'' then [''access_token'' \<mapsto> ''tok-gmail'']
      else if s = ''enc-hubspot'' then [''access_token'' \<mapsto> ''at-old'', ''refresh_token'' \<mapsto> ''rt-1'']
      else if s = ''enc-stripe'' then [''api_key'' \<mapsto> ''sk-1'']
      else if s = ''enc-s3'' then [''access_key'' \<mapsto> ''ak'', ''secret_key'' \<mapsto> ''sk'']
      else Map.empty)"

definition demo_endpoint :: "string \<Rightarrow> string \<Rightarrow> error + OAuth2TokenResponse" where
  "demo_endpoint integration token =
     (if integration = ''hubspot'' \<and> token = ''rt-1''
      then Inr \<lparr>access_token = ''at-new'', refresh_token = None\<rparr>
      else Inl (CredentialRefreshError integration))"

definition demo_env :: env where
  "demo_env =
     \<lparr>env_modules = demo_modules,
      decrypt = demo_decrypt,
      encrypt = (\<lambda>c. ''enc-rotated''),
      token_endpoint = demo_endpoint,
      integration_settings =
        [''hubspot'' \<mapsto> \<lparr>settings_class = OAuth2WithRefreshSettings,
                            settings_fields = [''auth_type'' \<mapsto> PStr ''oauth2_with_refresh'']\<rparr>],
      store_writable = True,
      router_init = (\<lambda>d. Inr (SyncDAGRouter d))\<rparr>"

definition demo_connection :: "UUID \<Rightarrow> Connection option" where
  "demo_connection k =
     (if k = 1 then Some \<lparr>conn_id = 1, connection_short_name = ''gmail'', integration_credential_id = Some 11\<rparr>
      else if k = 2 then Some \<lparr>conn_id = 2, connection_short_name = ''hubspot'', integration_credential_id = Some 12\<rparr>
      else if k = 3 then Some \<lparr>conn_id = 3, connection_short_name = ''local_files'', integration_credential_id = None\<rparr>
      else if k = 4 then Some \<lparr>conn_id = 4, connection_short_name = ''stripe'', integration_credential_id = Some 14\<rparr>
      else if k = 5 then Some \<lparr>conn_id = 5, connection_short_name = ''gmail'', integration_credential_id = None\<rparr>
      else if k = 6 then Some \<lparr>conn_id = 6, connection_short_name = ''gmail'', integration_credential_id = Some 16\<rparr>
      else if k = 7 then Some \<lparr>conn_id = 7, connection_short_name = ''stripe'', integration_credential_id = Some 16\<rparr>
      else if k = 8 then Some \<lparr>conn_id = 8, connection_short_name = ''s3'', integration_credential_id = Some 18\<rparr>
      else None)"

definition demo_credential :: "UUID \<Rightarrow> IntegrationCredential option" where
  "demo_credential k =
     (if k = 11 then Some \<lparr>encrypted_credentials = ''enc-gmail''\<rparr>
      else if k = 12 then Some \<lparr>encrypted_credentials = ''enc-hubspot''\<rparr>
      else if k = 14 then Some \<lparr>encrypted_credentials = ''enc-stripe''\<rparr>
      else if k = 16 then Some \<lparr>encrypted_credentials = ''enc-empty''\<rparr>
      else if k = 18 then Some \<lparr>encrypted_credentials = ''enc-s3''\<rparr>
      else None)"

definition demo_sources :: "string \<rightharpoonup> Source" where
  "demo_sources =
     [''gmail'' \<mapsto> \<lparr>short_name = ''gmail'', class_name = ''GmailSource'', auth_type = oauth2,
                      auth_config_class = None\<rparr>,
      ''hubspot'' \<mapsto> \<lparr>short_name = ''hubspot'', class_name = ''HubspotSource'',
                        auth_type = oauth2_with_refresh, auth_config_class = None\<rparr>,
      ''local_files'' \<mapsto> \<lparr>short_name = ''local_files'', class_name = ''LocalFilesSource'',
                            auth_type = none, auth_config_class = None\<rparr>,
      ''stripe'' \<mapsto> \<lparr>short_name = ''stripe'', class_name = ''StripeSource'', auth_type = api_key,
                       auth_config_class = Some ''StripeAuthConfig''\<rparr>,
      ''s3'' \<mapsto> \<lparr>short_name = ''s3'', class_name = ''S3Source'', auth_type = sigv4,
                   auth_config_class = Some ''S3AuthConfig''\<rparr>]"

definition demo_world :: world where
  "demo_world =
     \<lparr>connection_tbl = (\<lambda>k u. if u = ''alice'' then demo_connection k else None),
      source_tbl = demo_sources,
      credential_tbl = (\<lambda>k u. if u = ''alice'' then demo_credential k else None),
      transformer_tbl =
        [\<lparr>transformer_module_name = ''airweave.platform.transformers.chunker'',
          method_name = ''chunk''\<rparr>],
      token_requests = []\<rparr>"

definition demo_sync :: "UUID \<Rightarrow> Sync" where
  "demo_sync k =
     \<lparr>sync_id = 100, source_connection_id = k, destination_connection_id = None,
      embedding_model_connection_id = None\<rparr>"

definition demo_job :: SyncJob where
  "demo_job = \<lparr>job_id = 200\<rparr>"


text \<open>
  Two DAG definitions: the chain source, transformer, destination of scenario C, and
  a definition without nodes whose one edge joins two identifiers that name nothing.
\<close>

definition demo_node :: "UUID \<Rightarrow> string \<Rightarrow> string \<Rightarrow> DagNode" where
  "demo_node k ty nm =
     \<lparr>node_type = ty, node_name = nm, node_config = None, connection_id = None,
      entity_definition_id = None, node_id = k, node_dag_id = 300, node_organization_id = 1,
      node_created_by_email = ''alice'', node_modified_by_email = ''alice''\<rparr>"

definition demo_edge :: "UUID \<Rightarrow> UUID \<Rightarrow> UUID \<Rightarrow> DagEdge" where
  "demo_edge k a b =
     \<lparr>from_node_id = a, to_node_id = b, edge_id = k, edge_dag_id = 300,
      edge_organization_id = 1, edge_created_by_email = ''alice'',
      edge_modified_by_email = ''alice''\<rparr>"

definition demo_dag :: "DagNode list \<Rightarrow> DagEdge list \<Rightarrow> SyncDagDefinition" where
  "demo_dag ns es =
     \<lparr>dag_name = ''dag'', description = None, dag_sync_id = 100, dag_id = 300,
      organization_id = 1, created_by_email = ''alice'', modified_by_email = ''alice'',
      nodes = ns, edges = es\<rparr>"

definition chain_dag :: SyncDagDefinition where
  "chain_dag =
     demo_dag [demo_node 1 ''source'' ''S'', demo_node 2 ''transformer'' ''T'',
               demo_node 3 ''destination'' ''D'']
              [demo_edge 10 1 2, demo_edge 11 2 3]"


section \<open>The auth catalog: lemmas\<close>

lemma mapping_get_Some_iff:
  "mapping_get v = Inr (Some c) \<longleftrightarrow> v = PStr (AuthType_value (strategy_tag c))"
  by (cases v; cases c) (auto simp: mapping_get_def mapping_def)

lemma mapping_get_unknown:
  assumes "v = PStr t \<or> v = PScalar t"
    and "v \<notin> PStr ` set (map AuthType_value
        [oauth2, trello_auth, api_key, oauth2_with_refresh, oauth2_with_refresh_rotating,
         native_functionality, config_class, sigv4])"
  shows "mapping_get v = Inr None \<and> format_value v = t"
proof -
  have "mapping_get v \<noteq> Inr (Some c)" for c
    using assms(2) by (cases c) (auto simp: mapping_get_Some_iff)
  moreover obtain m where "mapping_get v = Inr m"
    using assms(1) by (auto simp: mapping_get_def)
  ultimately have "mapping_get v = Inr None" by (cases m) auto
  then show ?thesis using assms(1) by auto
qed

lemma parse_integration_unsupported:
  "mapping_get (case config ''auth_type'' of None \<Rightarrow> PStr '''' | Some v \<Rightarrow> v) = Inr None \<Longrightarrow>
   parse_integration model_init name config =
     Inl (ValueError (''Unsupported auth_type for integration '' @ name @ '': '' @
            format_value (case config ''auth_type'' of None \<Rightarrow> PStr '''' | Some v \<Rightarrow> v)))"
  by (simp add: parse_integration_def)

lemma parse_integration_class:
  "parse_integration model_init name config = Inr s \<Longrightarrow>
   mapping_get (case config ''auth_type'' of None \<Rightarrow> PStr '''' | Some v \<Rightarrow> v) =
     Inr (Some (settings_class s))"
  by (auto simp: parse_integration_def Let_def split: option.splits sum.splits)

text \<open>What \<^verbatim>\<open>yaml.safe_load\<close> keeps: one entry per key, the last of the text.\<close>

lemma map_of_fold_update:
  "map_of (fold (\<lambda>kv d. AList.update (fst kv) (snd kv) d) doc acc) = map_of acc ++ map_of (rev doc)"
proof (induction doc arbitrary: acc)
  case Nil
  show ?case by simp
next
  case (Cons kv doc)
  show ?case
    by (simp add: Cons.IH update_conv' map_add_upd_left fun_eq_iff map_add_def split: option.splits)
qed

lemma map_of_yaml_safe_load: "map_of (yaml_safe_load doc) = map_of (rev doc)"
  by (simp add: yaml_safe_load_def map_of_fold_update)

lemma distinct_fold_update:
  "distinct (map fst acc) \<Longrightarrow>
   distinct (map fst (fold (\<lambda>kv d. AList.update (fst kv) (snd kv) d) doc acc))"
  by (induction doc arbitrary: acc) (simp_all add: distinct_update)

lemma distinct_yaml_safe_load: "distinct (map fst (yaml_safe_load doc))"
  by (simp add: yaml_safe_load_def distinct_fold_update)

lemma set_fold_update:
  "set (fold (\<lambda>kv d. AList.update (fst kv) (snd kv) d) doc acc) \<subseteq> set acc \<union> set doc"
proof (induction doc arbitrary: acc)
  case Nil
  show ?case by simp
next
  case (Cons kv doc)
  have "set (AList.update (fst kv) (snd kv) acc) \<subseteq> insert kv (set acc)"
    by (induction acc) auto
  then show ?case using Cons.IH [of "AList.update (fst kv) (snd kv) acc"] by auto
qed

lemma set_yaml_safe_load: "set (yaml_safe_load doc) \<subseteq> set doc"
  using set_fold_update [of doc "[]"] by (simp add: yaml_safe_load_def)

text \<open>The loading loop: what it leaves alone, what it stores, when it fails.\<close>

lemma load_items_other:
  "load_items model_init items st = Inr cat \<Longrightarrow> n \<notin> fst ` set items \<Longrightarrow> cat n = st n"
  by (induction items arbitrary: st) (auto split: sum.splits)

lemma load_items_entry:
  "load_items model_init items st = Inr cat \<Longrightarrow> distinct (map fst items) \<Longrightarrow>
   (n, cfg) \<in> set items \<Longrightarrow> parse_integration model_init n cfg = Inr (the (cat n)) \<and> cat n \<noteq> None"
proof (induction items arbitrary: st)
  case Nil
  then show ?case by simp
next
  case (Cons kv items)
  obtain s where s: "parse_integration model_init (fst kv) (snd kv) = Inr s"
    and rest: "load_items model_init items (st(fst kv \<mapsto> s)) = Inr cat"
    using Cons.prems(1) by (auto split: sum.splits)
  show ?case
  proof (cases "(n, cfg) = kv")
    case True
    then have "n \<notin> fst ` set items" using Cons.prems(2) by force
    then have "cat n = Some s" using load_items_other [OF rest] True by auto
    then show ?thesis using s True by auto
  next
    case False
    then have "(n, cfg) \<in> set items" using Cons.prems(3) by auto
    then show ?thesis using Cons.IH [OF rest] Cons.prems(2) by simp
  qed
qed

lemma load_items_fixed:
  "(\<And>n cfg. (n, cfg) \<in> set items \<Longrightarrow>
      parse_integration model_init n cfg = Inr (the (st n)) \<and> st n \<noteq> None) \<Longrightarrow>
   load_items model_init items st = Inr st"
proof (induction items)
  case Nil
  show ?case by simp
next
  case (Cons kv items)
  have h: "parse_integration model_init (fst kv) (snd kv) = Inr (the (st (fst kv)))" "st (fst kv) \<noteq> None"
    using Cons.prems [of "fst kv" "snd kv"] by auto
  then have "st(fst kv \<mapsto> the (st (fst kv))) = st" by (auto simp: fun_eq_iff)
  moreover have "load_items model_init items st = Inr st"
    using Cons.IH Cons.prems by auto
  ultimately show ?case using h by simp
qed

lemma load_items_idem:
  "load_items model_init items st = Inr cat \<Longrightarrow> distinct (map fst items) \<Longrightarrow>
   load_items model_init items cat = Inr cat"
  by (rule load_items_fixed) (rule load_items_entry)

lemma load_items_fails:
  "(n, cfg) \<in> set items \<Longrightarrow> parse_integration model_init n cfg = Inl e \<Longrightarrow>
   isl (load_items model_init items st)"
  by (induction items arbitrary: st) (auto split: sum.splits)

lemma load_items_first_failure:
  "(\<And>kv. kv \<in> set pre \<Longrightarrow> \<not> isl (parse_integration model_init (fst kv) (snd kv))) \<Longrightarrow>
   parse_integration model_init n cfg = Inl e \<Longrightarrow>
   load_items model_init (pre @ (n, cfg) # post) st = Inl e"
proof (induction pre arbitrary: st)
  case Nil
  then show ?case by simp
next
  case (Cons kv pre)
  have "\<not> isl (parse_integration model_init (fst kv) (snd kv))"
    using Cons.prems(1) by simp
  then obtain s where "parse_integration model_init (fst kv) (snd kv) = Inr s"
    by (cases "parse_integration model_init (fst kv) (snd kv)") auto
  then show ?case using Cons by simp
qed

lemma load_items_succeeds:
  "list_all (\<lambda>kv. \<not> isl (parse_integration model_init (fst kv) (snd kv))) items \<Longrightarrow>
   \<not> isl (load_items model_init items st)"
proof (induction items arbitrary: st)
  case Nil
  show ?case by simp
next
  case (Cons kv items)
  then obtain s where "parse_integration model_init (fst kv) (snd kv) = Inr s"
    by (cases "parse_integration model_init (fst kv) (snd kv)") auto
  then show ?case using Cons by simp
qed

lemma load_settings_entry:
  assumes "load_settings model_init doc st = Inr cat"
    and "map_of (yaml_safe_load doc) n = Some cfg"
  shows "parse_integration model_init n cfg = Inr (the (cat n)) \<and> cat n \<noteq> None"
proof -
  have "(n, cfg) \<in> set (yaml_safe_load doc)" using assms(2) by (rule map_of_SomeD)
  then show ?thesis
    using load_items_entry [OF _ distinct_yaml_safe_load] assms(1)
    by (simp add: load_settings_def)
qed

section \<open>The auth catalog: claims\<close>

text \<open>
  C1 as the spec states it: a catalog entry with \<^verbatim>\<open>auth_type: none\<close> loads and a
  strategy is stored for it. Counterexample: the catalog of scenario B, the single entry
  \<^verbatim>\<open>local_files\<close> with auth type \<^verbatim>\<open>none\<close>, does not load; \<^verbatim>\<open>ValueError\<close> is raised.
\<close>

theorem none_entry_not_loaded_counterexample:
  "IntegrationSettings keep_all doc_local_files =
     Inl (ValueError ''Unsupported auth_type for integration local_files: none'')"
  by (simp add: IntegrationSettings_def load_settings_def yaml_safe_load_def doc_local_files_def
      parse_integration_def mapping_get_def mapping_def)

text \<open>
  C3 as the spec states it: a document with two entries for one short name is rejected
  at load time. Counterexample: the document with two entries for \<^verbatim>\<open>slack\<close> loads, and
  the lookup of \<^verbatim>\<open>slack\<close> returns the strategy of the later entry.
\<close>

theorem duplicate_entry_accepted_counterexample:
  "map_sum id settings_class (load_and_get keep_all doc_duplicate ''slack'') = Inr APIKeyAuthSettings"
  by (simp add: load_and_get_def IntegrationSettings_def load_settings_def yaml_safe_load_def
      doc_duplicate_def parse_integration_def mapping_get_def mapping_def keep_all_def
      get_by_short_name_def)

text \<open>
  C3, amended: catalog loading does not check that short names are unique. When a
  document holds two entries for one short name, loading succeeds whenever every entry
  of the document parses, and after a successful load the lookup of that short name
  returns the strategy parsed from the last entry for it: the later entry has replaced
  the earlier one.
\<close>

theorem later_entry_overwrites:
  assumes doc: "doc = pre @ (name, c1) # mid @ (name, c2) # post"
    and last: "name \<notin> fst ` set post"
  shows "(list_all (\<lambda>kv. \<not> isl (parse_integration model_init (fst kv) (snd kv))) doc \<longrightarrow>
            \<not> isl (load_settings model_init doc st)) \<and>
         (\<forall>cat. load_settings model_init doc st = Inr cat \<longrightarrow>
            get_by_short_name cat name = parse_integration model_init name c2)"
proof -
  have "\<not> isl (load_settings model_init doc st)"
    if "list_all (\<lambda>kv. \<not> isl (parse_integration model_init (fst kv) (snd kv))) doc"
  proof -
    have "list_all (\<lambda>kv. \<not> isl (parse_integration model_init (fst kv) (snd kv))) (yaml_safe_load doc)"
      using that set_yaml_safe_load [of doc] by (auto simp: list_all_iff)
    then show ?thesis by (simp add: load_settings_def load_items_succeeds)
  qed
  moreover have "get_by_short_name cat name = parse_integration model_init name c2"
    if "load_settings model_init doc st = Inr cat" for cat
  proof -
    have "map_of (rev doc) name = Some c2"
      using last by (simp add: doc map_add_Some_iff map_of_eq_None_iff)
    then have "map_of (yaml_safe_load doc) name = Some c2"
      by (simp add: map_of_yaml_safe_load)
    then have "parse_integration model_init name c2 = Inr (the (cat name)) \<and> cat name \<noteq> None"
      using load_settings_entry that by blast
    then show ?thesis by (auto simp: get_by_short_name_def)
  qed
  ultimately show ?thesis by blast
qed

theorem later_entry_overwrites_witness:
  "\<not> isl (load_settings keep_all doc_duplicate Map.empty) \<and>
   get_by_short_name (projr (load_settings keep_all doc_duplicate Map.empty)) ''slack'' =
     parse_integration keep_all ''slack'' [''auth_type'' \<mapsto> PStr ''api_key'']"
proof -
  have d: "doc_duplicate =
      [] @ (''slack'', [''auth_type'' \<mapsto> PStr ''oauth2'']) # [] @
        (''slack'', [''auth_type'' \<mapsto> PStr ''api_key'']) # []"
    by (simp add: doc_duplicate_def)
  have ok: "list_all (\<lambda>kv. \<not> isl (parse_integration keep_all (fst kv) (snd kv))) doc_duplicate"
    by (simp add: doc_duplicate_def parse_integration_def mapping_get_def mapping_def keep_all_def)
  have l: "name \<notin> fst ` set ([] :: document)" for name by simp
  note t = later_entry_overwrites [OF d l, of keep_all Map.empty]
  from t ok have a: "\<not> isl (load_settings keep_all doc_duplicate Map.empty)" by blast
  then have "load_settings keep_all doc_duplicate Map.empty =
      Inr (projr (load_settings keep_all doc_duplicate Map.empty))"
    by (cases "load_settings keep_all doc_duplicate Map.empty") auto
  with t a show ?thesis by blast
qed

text \<open>
  C4 as the spec states it: for every catalog entry whose \<^verbatim>\<open>auth_type\<close> is not a
  recognized variant, loading fails with the unsupported-auth-type error naming the
  integration and the tag. Counterexample, three documents. An entry whose tag is a list
  makes loading fail with \<^verbatim>\<open>TypeError\<close>, which names neither. A document with the
  entry \<^verbatim>\<open>acme\<close> of tag \<^verbatim>\<open>kerberos\<close> followed by a second entry \<^verbatim>\<open>acme\<close> of tag
  \<^verbatim>\<open>api_key\<close> loads. A document whose first entry the settings constructor rejects
  fails with that entry's \<^verbatim>\<open>ValidationError\<close>, though a later entry has the tag
  \<^verbatim>\<open>kerberos\<close>.
\<close>

theorem unknown_auth_type_other_outcomes_counterexample:
  "IntegrationSettings keep_all doc_list_tag = Inl (TypeError ''list'') \<and>
   \<not> isl (IntegrationSettings keep_all doc_shadowed) \<and>
   IntegrationSettings need_client_id doc_unknown = Inl (ValidationError [''client_id''])"
  by (simp add: IntegrationSettings_def load_settings_def yaml_safe_load_def doc_list_tag_def
      doc_shadowed_def doc_unknown_def parse_integration_def mapping_get_def mapping_def
      keep_all_def need_client_id_def)

text \<open>
  C4, amended: for every catalog entry whose \<^verbatim>\<open>auth_type\<close> is a scalar (a string, also
  the empty string that a missing tag reads as, or another hashable scalar) and is not
  the value of an auth type with a settings class, parsing the entry raises the error of
  an unsupported auth type, which in this code is \<^verbatim>\<open>ValueError\<close> with a message that
  names the integration and the tag. Loading a document whose parsed mapping holds the
  entry (an entry that no later entry of the same name has replaced) fails, and it
  fails with that very error when the entries before it parse.
\<close>

theorem unknown_auth_type_rejected:
  assumes tag: "tag = (case config ''auth_type'' of None \<Rightarrow> PStr '''' | Some v \<Rightarrow> v)"
    and scalar: "tag = PStr t \<or> tag = PScalar t"
    and unknown: "tag \<notin> PStr ` set (map AuthType_value
        [oauth2, trello_auth, api_key, oauth2_with_refresh, oauth2_with_refresh_rotating,
         native_functionality, config_class, sigv4])"
    and entry: "yaml_safe_load doc = before @ (name, config) # rest"
  shows "parse_integration model_init name config =
           Inl (ValueError (''Unsupported auth_type for integration '' @ name @ '': '' @ t)) \<and>
         isl (load_settings model_init doc st) \<and>
         (list_all (\<lambda>kv. \<not> isl (parse_integration model_init (fst kv) (snd kv))) before \<longrightarrow>
            load_settings model_init doc st =
              Inl (ValueError (''Unsupported auth_type for integration '' @ name @ '': '' @ t)))"
proof -
  have "mapping_get tag = Inr None \<and> format_value tag = t"
    using mapping_get_unknown [OF scalar unknown] .
  then have p: "parse_integration model_init name config =
      Inl (ValueError (''Unsupported auth_type for integration '' @ name @ '': '' @ t))"
    using parse_integration_unsupported [of config model_init name] tag by simp
  have "(name, config) \<in> set (yaml_safe_load doc)" using entry by simp
  then have f: "isl (load_settings model_init doc st)"
    using load_items_fails [OF _ p] by (simp add: load_settings_def)
  have "load_settings model_init doc st =
      Inl (ValueError (''Unsupported auth_type for integration '' @ name @ '': '' @ t))"
    if "list_all (\<lambda>kv. \<not> isl (parse_integration model_init (fst kv) (snd kv))) before"
    using that load_items_first_failure [of before model_init name config _ rest st] p entry
    by (simp add: load_settings_def list_all_iff)
  then show ?thesis using p f by blast
qed

theorem unknown_auth_type_rejected_witness:
  "parse_integration keep_all ''acme'' [''auth_type'' \<mapsto> PStr ''kerberos''] =
     Inl (ValueError ''Unsupported auth_type for integration acme: kerberos'') \<and>
   load_settings keep_all doc_unknown Map.empty =
     Inl (ValueError ''Unsupported auth_type for integration acme: kerberos'')"
proof -
  have e: "yaml_safe_load doc_unknown =
      [(''gmail'', [''auth_type'' \<mapsto> PStr ''oauth2''])] @
        (''acme'', [''auth_type'' \<mapsto> PStr ''kerberos'']) # []"
    by (simp add: yaml_safe_load_def doc_unknown_def)
  have ok: "list_all (\<lambda>kv. \<not> isl (parse_integration keep_all (fst kv) (snd kv)))
      [(''gmail'', [''auth_type'' \<mapsto> PStr ''oauth2''])]"
    by (simp add: parse_integration_def mapping_get_def mapping_def keep_all_def)
  show ?thesis
    using unknown_auth_type_rejected
      [OF _ _ _ e, of "PStr ''kerberos''" "''kerberos''" keep_all Map.empty] ok
    by simp
qed

text \<open>
  C9: when a catalog document loads, the lookup of a short name of the document returns
  a strategy whose tag is the \<^verbatim>\<open>auth_type\<close> field of the document's entry for that
  name (the entry that the parsed mapping holds under the name), and loading the same
  document again into the loaded catalog succeeds and leaves an equal catalog.
\<close>

theorem get_matches_tag_and_reload_is_idempotent:
  assumes loaded: "load_settings model_init doc st = Inr cat"
    and entry: "map_of (yaml_safe_load doc) sn = Some config"
  shows "(\<exists>s. get_by_short_name cat sn = Inr s \<and>
              config ''auth_type'' = Some (PStr (AuthType_value (strategy_tag (settings_class s))))) \<and>
         load_settings model_init doc cat = Inr cat"
proof -
  let ?s = "the (cat sn)"
  let ?tag = "case config ''auth_type'' of None \<Rightarrow> PStr '''' | Some v \<Rightarrow> v"
  have p: "parse_integration model_init sn config = Inr ?s" and c: "cat sn \<noteq> None"
    using load_settings_entry [OF loaded entry] by auto
  have g: "get_by_short_name cat sn = Inr ?s"
    using c by (auto simp: get_by_short_name_def)
  have m: "mapping_get ?tag = Inr (Some (settings_class ?s))"
    using parse_integration_class [OF p] .
  then have v: "?tag = PStr (AuthType_value (strategy_tag (settings_class ?s)))"
    by (simp add: mapping_get_Some_iff)
  have "config ''auth_type'' \<noteq> None"
  proof
    assume "config ''auth_type'' = None"
    then have "mapping_get (PStr '''') = Inr (Some (settings_class ?s))" using m by simp
    then show False by (simp add: mapping_get_def mapping_def)
  qed
  then have t: "config ''auth_type'' = Some (PStr (AuthType_value (strategy_tag (settings_class ?s))))"
    using v by auto
  have "load_settings model_init doc cat = Inr cat"
    using load_items_idem [OF _ distinct_yaml_safe_load] loaded by (simp add: load_settings_def)
  then show ?thesis using g t by blast
qed

theorem get_matches_tag_and_reload_is_idempotent_witness:
  "map_sum id settings_class
     (get_by_short_name (projr (load_settings keep_all doc_hubspot Map.empty)) ''hubspot'') =
     Inr OAuth2WithRefreshSettings \<and>
   load_settings keep_all doc_hubspot (projr (load_settings keep_all doc_hubspot Map.empty)) =
     load_settings keep_all doc_hubspot Map.empty \<and>
   \<not> isl (load_settings keep_all doc_hubspot Map.empty)"
proof -
  let ?cat = "projr (load_settings keep_all doc_hubspot Map.empty)"
  have ok: "\<not> isl (load_settings keep_all doc_hubspot Map.empty)"
    by (simp add: load_settings_def yaml_safe_load_def doc_hubspot_def parse_integration_def
        mapping_get_def mapping_def keep_all_def)
  then have l: "load_settings keep_all doc_hubspot Map.empty = Inr ?cat"
    by (cases "load_settings keep_all doc_hubspot Map.empty") auto
  have e: "map_of (yaml_safe_load doc_hubspot) ''hubspot'' =
      Some [''auth_type'' \<mapsto> PStr ''oauth2_with_refresh'']"
    by (simp add: yaml_safe_load_def doc_hubspot_def)
  from get_matches_tag_and_reload_is_idempotent [OF l e]
  obtain s where s: "get_by_short_name ?cat ''hubspot'' = Inr s"
    and tg: "[''auth_type'' \<mapsto> PStr ''oauth2_with_refresh''] ''auth_type'' =
        Some (PStr (AuthType_value (strategy_tag (settings_class s))))"
    and idem: "load_settings keep_all doc_hubspot ?cat = Inr ?cat"
    by blast
  from tg have "settings_class s = OAuth2WithRefreshSettings"
    by (cases "settings_class s") auto
  then show ?thesis using s idem l ok by simp
qed

section \<open>The connector factory: lemmas\<close>

lemmas demo_defs =
  demo_modules_def demo_decrypt_def demo_endpoint_def demo_env_def demo_connection_def
  demo_credential_def demo_sources_def demo_world_def demo_sync_def demo_job_def

lemmas locator_defs =
  get_source_def get_auth_config_def get_transformer_def import_module_def getattr_def
  PLATFORM_PATH_def

lemmas factory_defs =
  create_source_instance_def create_oauth2_source_def create_other_auth_source_def
  create_oauth2_with_refresh_source_def refresh_access_token_def
  get_integration_credential_def source_create_def model_validate_def get_by_short_name_def

text \<open>The dispatch of \<^verbatim>\<open>_create_source_instance\<close> once its three lookups have succeeded.\<close>

lemma create_source_instance_resolved:
  assumes "connection_tbl w (source_connection_id sy) u = Some conn"
    and "source_tbl w (connection_short_name conn) = Some sm"
    and "get_source (env_modules ev) sm = Inr cls"
  shows "create_source_instance ev w sy u =
     (if auth_type sm = none then (source_create cls [], w)
      else if auth_type sm = oauth2_with_refresh \<or> auth_type sm = oauth2_with_refresh_rotating
        then create_oauth2_with_refresh_source ev w sm cls u conn
      else if auth_type sm = oauth2 then (create_oauth2_source ev w cls u conn, w)
      else (create_other_auth_source ev w sm cls u conn, w))"
  using assms by (simp add: create_source_instance_def)

text \<open>
  Called on the class as written, the assembler never returns a context: the class has
  no attribute \<^verbatim>\<open>_get_entity_map\<close> (it defines \<^verbatim>\<open>_get_entity_definition_map\<close>), so
  when the steps before it succeed, \<^verbatim>\<open>create\<close> raises \<^verbatim>\<open>AttributeError\<close>.
\<close>

lemma class_getattr_get_entity_map:
  "class_getattr SyncContextFactory ''_get_entity_map'' = Inl (AttributeError ''_get_entity_map'')"
  by (simp add: class_getattr_def SyncContextFactory_def SyncContextFactory_methods_def)

lemma create_never_returns: "isl (fst (create SyncContextFactory ev w sy job d u wl))"
  by (simp add: create_def class_getattr_get_entity_map Let_def split: prod.splits sum.splits)

section \<open>The connector factory and the assembler: claims\<close>

text \<open>
  C1, amended: for an integration whose catalog entry carries the auth type \<^verbatim>\<open>none\<close>,
  parsing the entry raises \<^verbatim>\<open>ValueError\<close> naming the integration and the tag (no
  settings class is mapped to \<^verbatim>\<open>none\<close>); loading a document whose parsed mapping holds
  the entry fails, with that very error when the entries before it parse, so no strategy
  is stored for it. Resolving a source connection whose source has the auth type
  \<^verbatim>\<open>none\<close> constructs the connector with no credential argument and leaves the state
  as it was.
\<close>

theorem none_entry_rejected_and_source_without_credential:
  assumes tag: "config ''auth_type'' = Some (PStr ''none'')"
    and entry: "yaml_safe_load doc = before @ (name, config) # rest"
    and conn: "connection_tbl w (source_connection_id sy) u = Some conn"
    and sm: "source_tbl w (connection_short_name conn) = Some sm"
    and cls: "get_source (env_modules ev) sm = Inr (SourceClass cn)"
    and ty: "auth_type sm = none"
  shows "parse_integration model_init name config =
           Inl (ValueError (''Unsupported auth_type for integration '' @ name @ '': none'')) \<and>
         isl (load_settings model_init doc st) \<and>
         (list_all (\<lambda>kv. \<not> isl (parse_integration model_init (fst kv) (snd kv))) before \<longrightarrow>
            load_settings model_init doc st =
              Inl (ValueError (''Unsupported auth_type for integration '' @ name @ '': none''))) \<and>
         create_source_instance ev w sy u = (Inr (SourceInstance cn []), w)"
proof -
  have "mapping_get (PStr ''none'') = Inr None" by (simp add: mapping_get_def mapping_def)
  then have p: "parse_integration model_init name config =
      Inl (ValueError (''Unsupported auth_type for integration '' @ name @ '': none''))"
    using parse_integration_unsupported [of config model_init name] tag by simp
  have "(name, config) \<in> set (yaml_safe_load doc)" using entry by simp
  then have f: "isl (load_settings model_init doc st)"
    using load_items_fails [OF _ p] by (simp add: load_settings_def)
  have x: "load_settings model_init doc st =
      Inl (ValueError (''Unsupported auth_type for integration '' @ name @ '': none''))"
    if "list_all (\<lambda>kv. \<not> isl (parse_integration model_init (fst kv) (snd kv))) before"
    using that load_items_first_failure [of before model_init name config _ rest st] p entry
    by (simp add: load_settings_def list_all_iff)
  have "create_source_instance ev w sy u = (Inr (SourceInstance cn []), w)"
    using create_source_instance_resolved [OF conn sm cls] ty by (simp add: source_create_def)
  then show ?thesis using p f x by blast
qed

theorem none_entry_rejected_and_source_without_credential_witness:
  "parse_integration keep_all ''local_files'' [''auth_type'' \<mapsto> PStr ''none''] =
     Inl (ValueError ''Unsupported auth_type for integration local_files: none'') \<and>
   load_settings keep_all doc_local_files Map.empty =
     Inl (ValueError ''Unsupported auth_type for integration local_files: none'') \<and>
   create_source_instance demo_env demo_world (demo_sync 3) ''alice'' =
     (Inr (SourceInstance ''LocalFilesSource'' []), demo_world)"
proof -
  have tag: "[''auth_type'' \<mapsto> PStr ''none''] ''auth_type'' = Some (PStr ''none'')" by simp
  have entry: "yaml_safe_load doc_local_files =
      [] @ (''local_files'', [''auth_type'' \<mapsto> PStr ''none'']) # []"
    by (simp add: yaml_safe_load_def doc_local_files_def)
  have conn: "connection_tbl demo_world (source_connection_id (demo_sync 3)) ''alice'' =
      Some \<lparr>conn_id = 3, connection_short_name = ''local_files'', integration_credential_id = None\<rparr>"
    by (simp add: demo_defs)
  have sm: "source_tbl demo_world (connection_short_name
        \<lparr>conn_id = 3, connection_short_name = ''local_files'', integration_credential_id = None\<rparr>) =
      Some \<lparr>short_name = ''local_files'', class_name = ''LocalFilesSource'', auth_type = none,
            auth_config_class = None\<rparr>"
    by (simp add: demo_defs)
  have cls: "get_source (env_modules demo_env)
        \<lparr>short_name = ''local_files'', class_name = ''LocalFilesSource'', auth_type = none,
         auth_config_class = None\<rparr> = Inr (SourceClass ''LocalFilesSource'')"
    by (simp add: demo_defs locator_defs)
  show ?thesis
    using none_entry_rejected_and_source_without_credential
      [OF tag entry conn sm cls, of keep_all Map.empty]
    by simp
qed




text \<open>
  C5: for a source of auth type \<^verbatim>\<open>oauth2\<close>, source creation decrypts the stored payload
  and constructs the connector with the stored access token as it is; the state, and
  with it the log of token-refresh requests, is unchanged, and the result does not
  depend on the token-refresh endpoint. When the connection has no credential reference
  it fails with the not-found error (\<^verbatim>\<open>NotFoundException\<close>, about the missing
  integration credential) and constructs no source.
\<close>

theorem oauth2_source_uses_stored_token:
  assumes conn: "connection_tbl w (source_connection_id sy) u = Some conn"
    and sm: "source_tbl w (connection_short_name conn) = Some sm"
    and cls: "get_source (env_modules ev) sm = Inr (SourceClass cn)"
    and ty: "auth_type sm = oauth2"
  shows "(integration_credential_id conn = None \<longrightarrow>
            create_source_instance ev w sy u =
              (Inl (NotFoundException ''Source connection has no integration credential''), w)) \<and>
         (\<forall>cid cred tok.
            integration_credential_id conn = Some cid \<and> credential_tbl w cid u = Some cred \<and>
            decrypt ev (encrypted_credentials cred) ''access_token'' = Some tok \<longrightarrow>
            create_source_instance ev w sy u = (Inr (SourceInstance cn [PyStr tok]), w)) \<and>
         snd (create_source_instance ev w sy u) = w \<and>
         create_source_instance (ev\<lparr>token_endpoint := f\<rparr>) w sy u = create_source_instance ev w sy u"
proof -
  have r: "create_source_instance ev w sy u = (create_oauth2_source ev w (SourceClass cn) u conn, w)"
    using create_source_instance_resolved [OF conn sm cls] ty by simp
  have cls': "get_source (env_modules (ev\<lparr>token_endpoint := f\<rparr>)) sm = Inr (SourceClass cn)"
    using cls by simp
  have r': "create_source_instance (ev\<lparr>token_endpoint := f\<rparr>) w sy u =
      (create_oauth2_source (ev\<lparr>token_endpoint := f\<rparr>) w (SourceClass cn) u conn, w)"
    using create_source_instance_resolved [OF conn sm cls'] ty by simp
  have e: "create_oauth2_source (ev\<lparr>token_endpoint := f\<rparr>) w (SourceClass cn) u conn =
      create_oauth2_source ev w (SourceClass cn) u conn"
    by (simp add: create_oauth2_source_def split: sum.splits)
  have n: "create_oauth2_source ev w (SourceClass cn) u conn =
      Inl (NotFoundException ''Source connection has no integration credential'')"
    if "integration_credential_id conn = None"
    using that by (simp add: create_oauth2_source_def)
  have t: "create_oauth2_source ev w (SourceClass cn) u conn = Inr (SourceInstance cn [PyStr tok])"
    if "integration_credential_id conn = Some cid" "credential_tbl w cid u = Some cred"
      "decrypt ev (encrypted_credentials cred) ''access_token'' = Some tok" for cid cred tok
    using that
    by (simp add: create_oauth2_source_def get_integration_credential_def source_create_def)
  show ?thesis using r r' e n t by auto
qed

theorem oauth2_source_uses_stored_token_witness:
  "create_source_instance demo_env demo_world (demo_sync 1) ''alice'' =
     (Inr (SourceInstance ''GmailSource'' [PyStr ''tok-gmail'']), demo_world) \<and>
   create_source_instance demo_env demo_world (demo_sync 5) ''alice'' =
     (Inl (NotFoundException ''Source connection has no integration credential''), demo_world)"
proof -
  let ?gmail = "\<lparr>short_name = ''gmail'', class_name = ''GmailSource'', auth_type = oauth2,
      auth_config_class = None\<rparr>"
  let ?c1 = "\<lparr>conn_id = 1, connection_short_name = ''gmail'', integration_credential_id = Some 11\<rparr>"
  let ?c5 = "\<lparr>conn_id = 5, connection_short_name = ''gmail'', integration_credential_id = None\<rparr>"
  have conn1: "connection_tbl demo_world (source_connection_id (demo_sync 1)) ''alice'' = Some ?c1"
    by (simp add: demo_defs)
  have conn5: "connection_tbl demo_world (source_connection_id (demo_sync 5)) ''alice'' = Some ?c5"
    by (simp add: demo_defs)
  have sm1: "source_tbl demo_world (connection_short_name ?c1) = Some ?gmail"
    by (simp add: demo_defs)
  have sm5: "source_tbl demo_world (connection_short_name ?c5) = Some ?gmail"
    by (simp add: demo_defs)
  have cls: "get_source (env_modules demo_env) ?gmail = Inr (SourceClass ''GmailSource'')"
    by (simp add: demo_defs locator_defs)
  have ty: "auth_type ?gmail = oauth2" by simp
  have cred: "integration_credential_id ?c1 = Some 11 \<and>
      credential_tbl demo_world 11 ''alice'' = Some \<lparr>encrypted_credentials = ''enc-gmail''\<rparr> \<and>
      decrypt demo_env (encrypted_credentials \<lparr>encrypted_credentials = ''enc-gmail''\<rparr>) ''access_token'' =
        Some ''tok-gmail''"
    by (simp add: demo_defs)
  have none: "integration_credential_id ?c5 = None" by simp
  from oauth2_source_uses_stored_token [OF conn1 sm1 cls ty] cred
  have a: "create_source_instance demo_env demo_world (demo_sync 1) ''alice'' =
      (Inr (SourceInstance ''GmailSource'' [PyStr ''tok-gmail'']), demo_world)"
    by blast
  from oauth2_source_uses_stored_token [OF conn5 sm5 cls ty] none
  have b: "create_source_instance demo_env demo_world (demo_sync 5) ''alice'' =
      (Inl (NotFoundException ''Source connection has no integration credential''), demo_world)"
    by blast
  from a b show ?thesis by simp
qed

text \<open>
  C6: for a source of auth type \<^verbatim>\<open>oauth2_with_refresh\<close> whose catalog strategy is the
  plain refresh one, resolving a source connection with a stored refresh token
  constructs the connector with the access token that the refresh endpoint returned for
  that refresh token; the only change of the state is the logged request, so the stored
  credential is unchanged, and a second resolution sends the same refresh token and
  constructs the same connector.
\<close>

theorem refresh_source_uses_endpoint_token_and_keeps_refresh_token:
  assumes conn: "connection_tbl w (source_connection_id sy) u = Some conn"
    and cid: "conn_id conn = source_connection_id sy"
    and sm: "source_tbl w (connection_short_name conn) = Some sm"
    and cls: "get_source (env_modules ev) sm = Inr (SourceClass cn)"
    and ty: "auth_type sm = oauth2_with_refresh"
    and strategy: "integration_settings ev (short_name sm) = Some strat"
    and plain: "settings_class strat = OAuth2WithRefreshSettings"
    and ref: "integration_credential_id conn = Some k"
    and cred: "credential_tbl w k u = Some credential"
    and stored: "decrypt ev (encrypted_credentials credential) ''refresh_token'' = Some token"
    and endpoint: "token_endpoint ev (short_name sm) token = Inr response"
  shows "create_source_instance ev w sy u =
           (Inr (SourceInstance cn [PyStr (access_token response)]),
            w\<lparr>token_requests := token_requests w @ [(short_name sm, token)]\<rparr>) \<and>
         credential_tbl (snd (create_source_instance ev w sy u)) = credential_tbl w \<and>
         create_source_instance ev (snd (create_source_instance ev w sy u)) sy u =
           (Inr (SourceInstance cn [PyStr (access_token response)]),
            w\<lparr>token_requests :=
                 token_requests w @ [(short_name sm, token), (short_name sm, token)]\<rparr>)"
proof -
  have step: "create_source_instance ev w' sy u =
      (Inr (SourceInstance cn [PyStr (access_token response)]),
       w'\<lparr>token_requests := token_requests w' @ [(short_name sm, token)]\<rparr>)"
    if "connection_tbl w' = connection_tbl w" "source_tbl w' = source_tbl w"
      "credential_tbl w' = credential_tbl w" for w'
  proof -
    have conn': "connection_tbl w' (source_connection_id sy) u = Some conn"
      and sm': "source_tbl w' (connection_short_name conn) = Some sm"
      using conn sm that by simp_all
    have "refresh_access_token ev w' (short_name sm) u (conn_id conn) =
        (Inr response, w'\<lparr>token_requests := token_requests w' @ [(short_name sm, token)]\<rparr>)"
      using conn cid strategy plain ref cred stored endpoint that
      by (simp add: refresh_access_token_def get_by_short_name_def)
    then have "create_oauth2_with_refresh_source ev w' sm (SourceClass cn) u conn =
        (Inr (SourceInstance cn [PyStr (access_token response)]),
         w'\<lparr>token_requests := token_requests w' @ [(short_name sm, token)]\<rparr>)"
      by (simp add: create_oauth2_with_refresh_source_def source_create_def)
    then show ?thesis
      using create_source_instance_resolved [OF conn' sm' cls] ty by simp
  qed
  let ?w1 = "w\<lparr>token_requests := token_requests w @ [(short_name sm, token)]\<rparr>"
  have first: "create_source_instance ev w sy u =
      (Inr (SourceInstance cn [PyStr (access_token response)]), ?w1)"
    using step [of w] by simp
  have second: "create_source_instance ev ?w1 sy u =
      (Inr (SourceInstance cn [PyStr (access_token response)]),
       ?w1\<lparr>token_requests := token_requests ?w1 @ [(short_name sm, token)]\<rparr>)"
    using step [of ?w1] by simp
  show ?thesis using first second by simp
qed

theorem refresh_source_uses_endpoint_token_and_keeps_refresh_token_witness:
  "create_source_instance demo_env demo_world (demo_sync 2) ''alice'' =
     (Inr (SourceInstance ''HubspotSource'' [PyStr ''at-new'']),
      demo_world\<lparr>token_requests := [(''hubspot'', ''rt-1'')]\<rparr>) \<and>
   credential_tbl (snd (create_source_instance demo_env demo_world (demo_sync 2) ''alice'')) =
     credential_tbl demo_world"
proof -
  let ?hubspot = "\<lparr>short_name = ''hubspot'', class_name = ''HubspotSource'',
      auth_type = oauth2_with_refresh, auth_config_class = None\<rparr>"
  let ?c2 = "\<lparr>conn_id = 2, connection_short_name = ''hubspot'', integration_credential_id = Some 12\<rparr>"
  let ?strat = "\<lparr>settings_class = OAuth2WithRefreshSettings,
      settings_fields = [''auth_type'' \<mapsto> PStr ''oauth2_with_refresh'']\<rparr>"
  let ?resp = "\<lparr>access_token = ''at-new'', refresh_token = None\<rparr>"
  have conn: "connection_tbl demo_world (source_connection_id (demo_sync 2)) ''alice'' = Some ?c2"
    by (simp add: demo_defs)
  have cid: "conn_id ?c2 = source_connection_id (demo_sync 2)"
    by (simp add: demo_defs)
  have sm: "source_tbl demo_world (connection_short_name ?c2) = Some ?hubspot"
    by (simp add: demo_defs)
  have cls: "get_source (env_modules demo_env) ?hubspot = Inr (SourceClass ''HubspotSource'')"
    by (simp add: demo_defs locator_defs)
  have ty: "auth_type ?hubspot = oauth2_with_refresh" by simp
  have strategy: "integration_settings demo_env (short_name ?hubspot) = Some ?strat"
    by (simp add: demo_defs)
  have plain: "settings_class ?strat = OAuth2WithRefreshSettings" by simp
  have ref: "integration_credential_id ?c2 = Some 12" by simp
  have cred: "credential_tbl demo_world 12 ''alice'' = Some \<lparr>encrypted_credentials = ''enc-hubspot''\<rparr>"
    by (simp add: demo_defs)
  have stored: "decrypt demo_env (encrypted_credentials \<lparr>encrypted_credentials = ''enc-hubspot''\<rparr>)
      ''refresh_token'' = Some ''rt-1''"
    by (simp add: demo_defs)
  have endpoint: "token_endpoint demo_env (short_name ?hubspot) ''rt-1'' = Inr ?resp"
    by (simp add: demo_defs)
  have log: "token_requests demo_world = []" by (simp add: demo_defs)
  show ?thesis
    using refresh_source_uses_endpoint_token_and_keeps_refresh_token
      [OF conn cid sm cls ty strategy plain ref cred stored endpoint]
    by (simp add: log)
qed

text \<open>
  C7 as the spec states it: a payload that lacks \<^verbatim>\<open>access_token\<close> under \<^verbatim>\<open>oauth2\<close>
  fails with \<^verbatim>\<open>ValidationError\<close>. Counterexample: a \<^verbatim>\<open>gmail\<close> connection (auth type
  \<^verbatim>\<open>oauth2\<close>) whose stored payload decrypts to no field at all fails with \<^verbatim>\<open>KeyError\<close>.
\<close>

theorem oauth2_missing_token_is_key_error_counterexample:
  "create_source_instance demo_env demo_world (demo_sync 6) ''alice'' =
     (Inl (KeyError ''access_token''), demo_world)"
  by (simp add: demo_defs locator_defs factory_defs)

text \<open>
  C7, amended: when the decrypted payload lacks a field that the source's strategy needs,
  source creation fails with an error that names the field, and no source instance is
  constructed. Under \<^verbatim>\<open>oauth2\<close> the field is \<^verbatim>\<open>access_token\<close> and the error is the
  \<^verbatim>\<open>KeyError\<close> of the missing key (no schema is consulted). Under the strategies that
  validate the payload against the source's credential schema (every auth type but
  \<^verbatim>\<open>none\<close> and the three OAuth2 ones, with an auth config class that resolves to a
  schema) the error is \<^verbatim>\<open>ValidationError\<close>, and the missing field is among the fields
  it lists.
\<close>

theorem missing_field_fails_before_construction:
  assumes conn: "connection_tbl w (source_connection_id sy) u = Some conn"
    and sm: "source_tbl w (connection_short_name conn) = Some sm"
    and cls: "get_source (env_modules ev) sm = Inr cls"
    and ref: "integration_credential_id conn = Some k"
    and cred: "credential_tbl w k u = Some credential"
    and payload: "payload = decrypt ev (encrypted_credentials credential)"
  shows "(auth_type sm = oauth2 \<and> payload ''access_token'' = None \<longrightarrow>
            create_source_instance ev w sy u = (Inl (KeyError ''access_token''), w)) \<and>
         (auth_type sm \<notin> set [none, oauth2, oauth2_with_refresh, oauth2_with_refresh_rotating] \<and>
          auth_config_class sm = Some c \<and> c \<noteq> [] \<and>
          get_auth_config (env_modules ev) c None = Inr (ConfigClass n req) \<and>
          field \<in> set req \<and> payload field = None \<longrightarrow>
            (\<exists>missing. create_source_instance ev w sy u = (Inl (ValidationError missing), w) \<and>
                        field \<in> set missing))"
proof -
  note r = create_source_instance_resolved [OF conn sm cls]
  have a: "create_source_instance ev w sy u = (Inl (KeyError ''access_token''), w)"
    if "auth_type sm = oauth2" "payload ''access_token'' = None"
    using that r ref cred payload
    by (simp add: create_oauth2_source_def get_integration_credential_def)
  have b: "\<exists>missing. create_source_instance ev w sy u = (Inl (ValidationError missing), w) \<and>
      field \<in> set missing"
    if t: "auth_type sm \<notin> set [none, oauth2, oauth2_with_refresh, oauth2_with_refresh_rotating]"
      and c: "auth_config_class sm = Some c" "c \<noteq> []"
      and g: "get_auth_config (env_modules ev) c None = Inr (ConfigClass n req)"
      and f: "field \<in> set req" "payload field = None"
  proof -
    let ?missing = "filter (\<lambda>f. payload f = None) req"
    have m: "field \<in> set ?missing" using f by simp
    then have ne: "?missing \<noteq> []" by (metis empty_iff empty_set)
    have "create_other_auth_source ev w sm cls u conn = Inl (ValidationError ?missing)"
      using ref cred payload c g ne
      by (simp add: create_other_auth_source_def get_integration_credential_def
          model_validate_def Let_def)
    then have "create_source_instance ev w sy u = (Inl (ValidationError ?missing), w)"
      using r t by simp
    then show ?thesis using m by blast
  qed
  show ?thesis using a b by blast
qed

theorem missing_field_fails_before_construction_witness:
  "create_source_instance demo_env demo_world (demo_sync 6) ''alice'' =
     (Inl (KeyError ''access_token''), demo_world) \<and>
   (\<exists>missing. create_source_instance demo_env demo_world (demo_sync 7) ''alice'' =
      (Inl (ValidationError missing), demo_world) \<and> ''api_key'' \<in> set missing)"
proof -
  let ?gmail = "\<lparr>short_name = ''gmail'', class_name = ''GmailSource'', auth_type = oauth2,
      auth_config_class = None\<rparr>"
  let ?stripe = "\<lparr>short_name = ''stripe'', class_name = ''StripeSource'', auth_type = api_key,
      auth_config_class = Some ''StripeAuthConfig''\<rparr>"
  let ?c6 = "\<lparr>conn_id = 6, connection_short_name = ''gmail'', integration_credential_id = Some 16\<rparr>"
  let ?c7 = "\<lparr>conn_id = 7, connection_short_name = ''stripe'', integration_credential_id = Some 16\<rparr>"
  let ?cred = "\<lparr>encrypted_credentials = ''enc-empty''\<rparr>"
  have conn6: "connection_tbl demo_world (source_connection_id (demo_sync 6)) ''alice'' = Some ?c6"
    by (simp add: demo_defs)
  have conn7: "connection_tbl demo_world (source_connection_id (demo_sync 7)) ''alice'' = Some ?c7"
    by (simp add: demo_defs)
  have sm6: "source_tbl demo_world (connection_short_name ?c6) = Some ?gmail"
    by (simp add: demo_defs)
  have sm7: "source_tbl demo_world (connection_short_name ?c7) = Some ?stripe"
    by (simp add: demo_defs)
  have cls6: "get_source (env_modules demo_env) ?gmail = Inr (SourceClass ''GmailSource'')"
    by (simp add: demo_defs locator_defs)
  have cls7: "get_source (env_modules demo_env) ?stripe = Inr (SourceClass ''StripeSource'')"
    by (simp add: demo_defs locator_defs)
  have ref6: "integration_credential_id ?c6 = Some 16" by simp
  have ref7: "integration_credential_id ?c7 = Some 16" by simp
  have cred: "credential_tbl demo_world 16 ''alice'' = Some ?cred"
    by (simp add: demo_defs)
  have payload: "Map.empty = decrypt demo_env (encrypted_credentials ?cred)"
    by (simp add: demo_defs)
  have schema: "get_auth_config (env_modules demo_env) ''StripeAuthConfig'' None =
      Inr (ConfigClass ''StripeAuthConfig'' [''api_key''])"
    by (simp add: demo_defs locator_defs)
  have a: "create_source_instance demo_env demo_world (demo_sync 6) ''alice'' =
      (Inl (KeyError ''access_token''), demo_world)"
    using missing_field_fails_before_construction [OF conn6 sm6 cls6 ref6 cred payload]
    by simp
  have b: "\<exists>missing. create_source_instance demo_env demo_world (demo_sync 7) ''alice'' =
      (Inl (ValidationError missing), demo_world) \<and> ''api_key'' \<in> set missing"
    using missing_field_fails_before_construction
      [OF conn7 sm7 cls7 ref7 cred payload,
       of "''StripeAuthConfig''" "''StripeAuthConfig''" "[''api_key'']" "''api_key''"]
      schema
    by simp
  from a b show ?thesis by blast
qed

text \<open>
  C8: the embedding model and the destination are each one fixed implementation. The
  embedding model is an instance of \<^verbatim>\<open>LocalText2Vec\<close> whatever the sync's
  \<^verbatim>\<open>embedding_model_connection_id\<close> is; the destination is an instance of
  \<^verbatim>\<open>WeaviateDestination\<close>, constructed from the sync's id and the embedding model it
  is given (any embedding model), whatever the sync's \<^verbatim>\<open>destination_connection_id\<close>
  is; with the embedding model constructed for the sync, as the assembler passes it, it
  is the Weaviate destination over that \<^verbatim>\<open>LocalText2Vec\<close> instance.
\<close>

theorem fixed_embedding_model_and_destination:
  "get_embedding_model sy = EmbeddingModelInstance ''LocalText2Vec'' \<and>
   get_embedding_model (sy\<lparr>embedding_model_connection_id := x\<rparr>) = get_embedding_model sy \<and>
   create_destination_instance sy em = DestinationInstance ''WeaviateDestination'' (sync_id sy) em \<and>
   create_destination_instance (sy\<lparr>destination_connection_id := y\<rparr>) em =
     create_destination_instance sy em \<and>
   create_destination_instance sy (get_embedding_model sy) =
     DestinationInstance ''WeaviateDestination'' (sync_id sy)
       (EmbeddingModelInstance ''LocalText2Vec'')"
  by (simp add: get_embedding_model_def create_destination_instance_def LocalText2Vec_def
      WeaviateDestination_create_def)

theorem fixed_embedding_model_and_destination_witness:
  "get_embedding_model ((demo_sync 1)\<lparr>embedding_model_connection_id := Some 7\<rparr>) =
     EmbeddingModelInstance ''LocalText2Vec'' \<and>
   create_destination_instance ((demo_sync 1)\<lparr>destination_connection_id := Some 9\<rparr>)
       (EmbeddingModelInstance ''OpenAIText2Vec'') =
     DestinationInstance ''WeaviateDestination'' 100 (EmbeddingModelInstance ''OpenAIText2Vec'')"
  using fixed_embedding_model_and_destination
      [of "demo_sync 1" "Some 7" "EmbeddingModelInstance ''OpenAIText2Vec''" "Some 9"]
  by (simp add: demo_sync_def)

text \<open>
  C10: the connector factory's path for the auth types that carry a credential schema
  (every auth type but \<^verbatim>\<open>none\<close> and the three OAuth2 ones, so \<^verbatim>\<open>sigv4\<close> too) calls
  \<^verbatim>\<open>get_auth_config\<close> without an auth type, and the named class is resolved in the
  generic module \<^verbatim>\<open>configs.auth\<close>: the source is constructed with the payload
  validated by the class of that name in \<^verbatim>\<open>configs.auth\<close>; when \<^verbatim>\<open>configs.auth\<close> has
  no class of that name, or cannot be imported, source creation fails, whatever
  \<^verbatim>\<open>configs.sigv4\<close> holds. \<^verbatim>\<open>get_auth_config\<close> itself reads \<^verbatim>\<open>configs.sigv4\<close> exactly
  when the auth type passed is \<^verbatim>\<open>sigv4\<close>, and \<^verbatim>\<open>configs.auth\<close> otherwise.
\<close>

theorem auth_config_resolved_from_generic_module:
  assumes conn: "connection_tbl w (source_connection_id sy) u = Some conn"
    and sm: "source_tbl w (connection_short_name conn) = Some sm"
    and cls: "get_source (env_modules ev) sm = Inr (SourceClass cn)"
    and ty: "auth_type sm \<notin> set [none, oauth2, oauth2_with_refresh, oauth2_with_refresh_rotating]"
    and ref: "integration_credential_id conn = Some k"
    and cred: "credential_tbl w k u = Some credential"
    and payload: "payload = decrypt ev (encrypted_credentials credential)"
    and cfg: "auth_config_class sm = Some c" "c \<noteq> []"
  shows "(\<forall>m n req.
            env_modules ev ''airweave.platform.configs.auth'' = Some m \<and>
            m c = Some (ConfigClass n req) \<and> list_all (\<lambda>f. payload f \<noteq> None) req \<longrightarrow>
            create_source_instance ev w sy u = (Inr (SourceInstance cn [PyModel n payload]), w)) \<and>
         (\<forall>m. env_modules ev ''airweave.platform.configs.auth'' = Some m \<and> m c = None \<longrightarrow>
            create_source_instance ev w sy u = (Inl (AttributeError c), w)) \<and>
         (env_modules ev ''airweave.platform.configs.auth'' = None \<longrightarrow>
            create_source_instance ev w sy u =
              (Inl (ModuleNotFoundError ''airweave.platform.configs.auth''), w)) \<and>
         get_auth_config mods c' t =
           (case import_module mods
                   (if t = Some ''sigv4'' then ''airweave.platform.configs.sigv4''
                    else ''airweave.platform.configs.auth'') of
              Inl e \<Rightarrow> Inl e
            | Inr m \<Rightarrow> getattr m c')"
proof -
  have r: "create_source_instance ev w sy u = (create_other_auth_source ev w sm (SourceClass cn) u conn, w)"
    using create_source_instance_resolved [OF conn sm cls] ty by simp
  have o: "create_other_auth_source ev w sm (SourceClass cn) u conn =
      (case get_auth_config (env_modules ev) c None of
         Inl e \<Rightarrow> Inl e
       | Inr auth_config \<Rightarrow>
           (case model_validate auth_config payload of
              Inl e \<Rightarrow> Inl e
            | Inr source_credentials \<Rightarrow> source_create (SourceClass cn) [source_credentials]))"
    using ref cred cfg unfolding payload
    by (simp add: create_other_auth_source_def get_integration_credential_def)
  have g: "get_auth_config mods c' t =
           (case import_module mods
                   (if t = Some ''sigv4'' then ''airweave.platform.configs.sigv4''
                    else ''airweave.platform.configs.auth'') of
              Inl e \<Rightarrow> Inl e
            | Inr m \<Rightarrow> getattr m c')" for mods c' t
    by (simp add: get_auth_config_def PLATFORM_PATH_def)
  have a: "create_source_instance ev w sy u = (Inr (SourceInstance cn [PyModel n payload]), w)"
    if "env_modules ev ''airweave.platform.configs.auth'' = Some m"
      "m c = Some (ConfigClass n req)" "list_all (\<lambda>f. payload f \<noteq> None) req" for m n req
  proof -
    have "filter (\<lambda>f. payload f = None) req = []"
      using that(3) by (auto simp: list_all_iff filter_empty_conv)
    then show ?thesis
      using that(1,2)
      by (simp add: r o g [of _ _ None] import_module_def getattr_def model_validate_def
          source_create_def)
  qed
  have b: "create_source_instance ev w sy u = (Inl (AttributeError c), w)"
    if "env_modules ev ''airweave.platform.configs.auth'' = Some m" "m c = None" for m
    using that by (simp add: r o g [of _ _ None] import_module_def getattr_def)
  have d: "create_source_instance ev w sy u =
      (Inl (ModuleNotFoundError ''airweave.platform.configs.auth''), w)"
    if "env_modules ev ''airweave.platform.configs.auth'' = None"
    using that by (simp add: r o g [of _ _ None] import_module_def)
  show ?thesis using a b d g [of mods c' t] by blast
qed

theorem auth_config_resolved_from_generic_module_witness:
  "create_source_instance demo_env demo_world (demo_sync 8) ''alice'' =
     (Inr (SourceInstance ''S3Source'' [PyModel ''S3AuthConfig'' (demo_decrypt ''enc-s3'')]),
      demo_world) \<and>
   get_auth_config demo_modules ''S3AuthConfig'' (Some ''sigv4'') =
     Inr (ConfigClass ''S3SigV4Config'' [''region''])"
proof -
  let ?s3 = "\<lparr>short_name = ''s3'', class_name = ''S3Source'', auth_type = sigv4,
      auth_config_class = Some ''S3AuthConfig''\<rparr>"
  let ?c8 = "\<lparr>conn_id = 8, connection_short_name = ''s3'', integration_credential_id = Some 18\<rparr>"
  let ?cred = "\<lparr>encrypted_credentials = ''enc-s3''\<rparr>"
  let ?auth = "[''StripeAuthConfig'' \<mapsto> ConfigClass ''StripeAuthConfig'' [''api_key''],
      ''S3AuthConfig'' \<mapsto> ConfigClass ''S3AuthConfig'' [''access_key'', ''secret_key'']]"
  have conn: "connection_tbl demo_world (source_connection_id (demo_sync 8)) ''alice'' = Some ?c8"
    by (simp add: demo_defs)
  have sm: "source_tbl demo_world (connection_short_name ?c8) = Some ?s3"
    by (simp add: demo_defs)
  have cls: "get_source (env_modules demo_env) ?s3 = Inr (SourceClass ''S3Source'')"
    by (simp add: demo_defs locator_defs)
  have ty: "auth_type ?s3 \<notin> set [none, oauth2, oauth2_with_refresh, oauth2_with_refresh_rotating]"
    by simp
  have ref: "integration_credential_id ?c8 = Some 18" by simp
  have cred: "credential_tbl demo_world 18 ''alice'' = Some ?cred"
    by (simp add: demo_defs)
  have payload: "demo_decrypt ''enc-s3'' = decrypt demo_env (encrypted_credentials ?cred)"
    by (simp add: demo_env_def)
  have cfg: "auth_config_class ?s3 = Some ''S3AuthConfig''" "''S3AuthConfig'' \<noteq> []"
    by simp_all
  have m: "env_modules demo_env ''airweave.platform.configs.auth'' = Some ?auth"
    by (simp add: demo_env_def demo_modules_def)
  have c: "?auth ''S3AuthConfig'' = Some (ConfigClass ''S3AuthConfig'' [''access_key'', ''secret_key''])"
    by simp
  have full: "list_all (\<lambda>f. demo_decrypt ''enc-s3'' f \<noteq> None) [''access_key'', ''secret_key'']"
    by (simp add: demo_decrypt_def)
  note t = auth_config_resolved_from_generic_module
    [OF conn sm cls ty ref cred payload cfg, of demo_modules "''S3AuthConfig''" "Some ''sigv4''"]
  have a: "create_source_instance demo_env demo_world (demo_sync 8) ''alice'' =
      (Inr (SourceInstance ''S3Source'' [PyModel ''S3AuthConfig'' (demo_decrypt ''enc-s3'')]),
       demo_world)"
    using t m c full by blast
  have b: "get_auth_config demo_modules ''S3AuthConfig'' (Some ''sigv4'') =
      Inr (ConfigClass ''S3SigV4Config'' [''region''])"
    using t by (simp add: demo_modules_def import_module_def getattr_def)
  from a b show ?thesis by blast
qed

end
